theory Spec2Isabelle
  imports Main "HOL-Library.Word" "HOL-Library.Sublist" "HOL-Library.AList"
begin

section \<open>Python values, exceptions and dictionaries\<close>

text \<open>
  The tools of \<^verbatim>\<open>chuk_mcp_artifact_server/tools.py\<close> receive raw metadata from the
  artefact store as \<^verbatim>\<open>Dict[str, Any]\<close>.  The values that can stand in such a dictionary
  are modelled by \<open>pyval\<close>: \<^verbatim>\<open>None\<close>, booleans, integers, strings and nested
  dictionaries (as association lists).  Bytes are lists of 8-bit words.
\<close>

type_synonym byte = "8 word"

datatype pyval =
    VNone
  | VBool bool
  | VInt int
  | VStr string
  | VDict "(string \<times> pyval) list"

type_synonym pydict = "(string \<times> pyval) list"
type_synonym raw_meta = "string \<rightharpoonup> pyval"

text \<open>
  Exceptions are values.  \<open>ValueError prefix cause\<close> stands for
  \<^verbatim>\<open>raise ValueError(f"{prefix}{exc}") from exc\<close>: the message is the prefix followed
  by the text of the cause.  \<open>ProviderError msg\<close> is the store's error with
  \<^verbatim>\<open>str(exc) = msg\<close>.  \<open>Exception msg\<close> is any other exception the external
  collaborators raise.  Every constructor is a subclass of Python's \<^verbatim>\<open>Exception\<close>.
\<close>

datatype exn =
    KeyError string
  | AttributeError string
  | ValidationError
  | ProviderError string
  | Exception string
  | ValueError string exn

text \<open>Truth value of a Python object, as \<^verbatim>\<open>or\<close>, \<^verbatim>\<open>not\<close> and \<^verbatim>\<open>if\<close> read it.\<close>

fun truthy :: "pyval \<Rightarrow> bool" where
  "truthy VNone = False"
| "truthy (VBool b) = b"
| "truthy (VInt i) = (i \<noteq> 0)"
| "truthy (VStr s) = (s \<noteq> [])"
| "truthy (VDict d) = (d \<noteq> [])"

text \<open>\<^verbatim>\<open>a or b\<close>: the first operand when it is true, else the second.\<close>

definition py_or :: "pyval \<Rightarrow> pyval \<Rightarrow> pyval" where
  "py_or a b = (if truthy a then a else b)"

text \<open>An \<^verbatim>\<open>Optional[str]\<close> argument as a Python object.\<close>

fun of_opt_str :: "string option \<Rightarrow> pyval" where
  "of_opt_str None = VNone"
| "of_opt_str (Some s) = VStr s"

text \<open>\<^verbatim>\<open>meta.get(k)\<close> gives \<^verbatim>\<open>None\<close> for a missing key; \<^verbatim>\<open>meta[k]\<close> raises
  \<^verbatim>\<open>KeyError\<close>; \<^verbatim>\<open>meta.get(k, d)\<close> gives the default.\<close>

definition dict_get :: "raw_meta \<Rightarrow> string \<Rightarrow> pyval" where
  "dict_get m k = (case m k of None \<Rightarrow> VNone | Some v \<Rightarrow> v)"

definition dict_get_default :: "raw_meta \<Rightarrow> string \<Rightarrow> pyval \<Rightarrow> pyval" where
  "dict_get_default m k d = (case m k of None \<Rightarrow> d | Some v \<Rightarrow> v)"

definition dict_item :: "raw_meta \<Rightarrow> string \<Rightarrow> exn + pyval" where
  "dict_item m k = (case m k of None \<Rightarrow> Inl (KeyError k) | Some v \<Rightarrow> Inr v)"

text \<open>\<^verbatim>\<open>s.split(sep)\<close> for a one-character separator: never an empty list.\<close>

fun str_split :: "char \<Rightarrow> string \<Rightarrow> string list" where
  "str_split sep [] = [[]]"
| "str_split sep (c # cs) =
     (if c = sep then [] # str_split sep cs
      else (case str_split sep cs of
              [] \<Rightarrow> [[c]]
            | p # ps \<Rightarrow> (c # p) # ps))"

text \<open>\<^verbatim>\<open>sub in s\<close> on strings.\<close>

fun str_contains :: "string \<Rightarrow> string \<Rightarrow> bool" where
  "str_contains sub [] = (sub = [])"
| "str_contains sub (c # cs) = (prefix sub (c # cs) \<or> str_contains sub cs)"

section \<open>The canonical descriptor (models.py)\<close>

record ArtifactInfo =
  artifact_id :: string
  filename :: "string option"
  mime :: string
  bytes :: int
  summary :: "string option"
  stored_at :: string
  session_id :: "string option"
  meta :: pydict

text \<open>
  \<^verbatim>\<open>ArtifactInfo.model_validate\<close> checks each field against its declared type.  A
  \<^verbatim>\<open>str\<close> field takes a string only, an \<^verbatim>\<open>Optional[str]\<close> field a string or
  \<^verbatim>\<open>None\<close>, the \<^verbatim>\<open>Dict[str, Any]\<close> field a dictionary.  What the validation library
  accepts for the \<^verbatim>\<open>int\<close> field \<^verbatim>\<open>bytes\<close> (integers, and the values it coerces to
  one) is the parameter \<open>intf\<close>.  Any rejected field raises \<^verbatim>\<open>ValidationError\<close>.
\<close>

fun str_field :: "pyval \<Rightarrow> string option" where
  "str_field (VStr s) = Some s"
| "str_field _ = None"

fun opt_str_field :: "pyval \<Rightarrow> string option option" where
  "opt_str_field VNone = Some None"
| "opt_str_field (VStr s) = Some (Some s)"
| "opt_str_field _ = None"

fun dict_field :: "pyval \<Rightarrow> pydict option" where
  "dict_field (VDict d) = Some d"
| "dict_field _ = None"

record info_fields =
  f_artifact_id :: pyval
  f_filename :: pyval
  f_mime :: pyval
  f_bytes :: pyval
  f_summary :: pyval
  f_stored_at :: pyval
  f_session_id :: pyval
  f_meta :: pyval

definition ArtifactInfo_model_validate ::
  "(pyval \<Rightarrow> int option) \<Rightarrow> info_fields \<Rightarrow> exn + ArtifactInfo" where
  "ArtifactInfo_model_validate intf d =
     (case str_field (f_artifact_id d) of None \<Rightarrow> Inl ValidationError | Some a \<Rightarrow>
     (case opt_str_field (f_filename d) of None \<Rightarrow> Inl ValidationError | Some fn \<Rightarrow>
     (case str_field (f_mime d) of None \<Rightarrow> Inl ValidationError | Some mi \<Rightarrow>
     (case intf (f_bytes d) of None \<Rightarrow> Inl ValidationError | Some by \<Rightarrow>
     (case opt_str_field (f_summary d) of None \<Rightarrow> Inl ValidationError | Some su \<Rightarrow>
     (case str_field (f_stored_at d) of None \<Rightarrow> Inl ValidationError | Some sa \<Rightarrow>
     (case opt_str_field (f_session_id d) of None \<Rightarrow> Inl ValidationError | Some se \<Rightarrow>
     (case dict_field (f_meta d) of None \<Rightarrow> Inl ValidationError | Some me \<Rightarrow>
        Inr \<lparr>artifact_id = a, filename = fn, mime = mi, bytes = by, summary = su,
             stored_at = sa, session_id = se, meta = me\<rparr>))))))))"

section \<open>The descriptor normalizer: \<^verbatim>\<open>_info\<close>\<close>

text \<open>
  Lines 104-109 of tools.py:
  \<^verbatim>\<open>art_id = (meta.get("artifact_id") or meta.get("id")
            or (meta.get("key") or "").split("/")[-1] or fallback_id)\<close>
  The operands are evaluated left to right and only as far as needed; \<^verbatim>\<open>.split\<close> on a
  true value that is not a string raises \<^verbatim>\<open>AttributeError\<close>.
\<close>

definition info_art_id :: "raw_meta \<Rightarrow> string option \<Rightarrow> exn + pyval" where
  "info_art_id m fallback_id =
     (if truthy (dict_get m ''artifact_id'') then Inr (dict_get m ''artifact_id'')
      else if truthy (dict_get m ''id'') then Inr (dict_get m ''id'')
      else (case py_or (dict_get m ''key'') (VStr []) of
              VStr k \<Rightarrow>
                Inr (py_or (VStr (last (str_split (CHR ''/'') k))) (of_opt_str fallback_id))
            | _ \<Rightarrow> Inl (AttributeError ''split'')))"

text \<open>
  \<^verbatim>\<open>_info(meta, fallback_id, fallback_session_id)\<close>, lines 98-124.  The fallback session
  is a Python object: some callers pass the session string they resolved, others pass
  \<^verbatim>\<open>meta.get("session_id")\<close>, whatever the store put there.
\<close>

definition info ::
  "(pyval \<Rightarrow> int option) \<Rightarrow> raw_meta \<Rightarrow> string option \<Rightarrow> pyval
     \<Rightarrow> exn + ArtifactInfo" where
  "info intf m fallback_id fallback_session_id =
     (case info_art_id m fallback_id of
        Inl e \<Rightarrow> Inl e
      | Inr art_id \<Rightarrow>
          if \<not> truthy art_id then Inl (KeyError ''artifact_id'')
          else (case dict_item m ''mime'' of Inl e \<Rightarrow> Inl e | Inr mi \<Rightarrow>
               (case dict_item m ''bytes'' of Inl e \<Rightarrow> Inl e | Inr by \<Rightarrow>
               (case dict_item m ''stored_at'' of Inl e \<Rightarrow> Inl e | Inr sa \<Rightarrow>
                  ArtifactInfo_model_validate intf
                    \<lparr>f_artifact_id = art_id,
                     f_filename = dict_get m ''filename'',
                     f_mime = mi,
                     f_bytes = by,
                     f_summary = dict_get m ''summary'',
                     f_stored_at = sa,
                     f_session_id =
                       py_or (dict_get m ''session_id'') fallback_session_id,
                     f_meta = dict_get_default m ''meta'' (VDict [])\<rparr>))))"

section \<open>Base64 (\<^verbatim>\<open>base64.b64encode\<close>)\<close>

text \<open>
  The standard alphabet with \<open>=\<close> padding.  Three bytes make a 24-bit number that is cut
  into four 6-bit digits; a last group of one or two bytes is filled with zero bits and
  padded to four characters.
\<close>

definition b64_alphabet :: string where
  "b64_alphabet = ''ABCDEFGHIJKLMNOPQRSTUVWXYZabcdefghijklmnopqrstuvwxyz0123456789+/''"

text \<open>The character of a 6-bit digit; it is only applied to numbers below 64.\<close>

definition b64_char :: "nat \<Rightarrow> char" where
  "b64_char n = b64_alphabet ! n"

definition b64_value :: "char \<Rightarrow> nat option" where
  "b64_value c = map_of (zip b64_alphabet [0..<64]) c"

definition b64_group :: "byte \<Rightarrow> byte \<Rightarrow> byte \<Rightarrow> string" where
  "b64_group a b c =
     (let n = unat a * 65536 + unat b * 256 + unat c
      in [b64_char (n div 262144), b64_char (n div 4096 mod 64),
          b64_char (n div 64 mod 64), b64_char (n mod 64)])"

fun b64encode :: "byte list \<Rightarrow> string" where
  "b64encode (a # b # c # rest) = b64_group a b c @ b64encode rest"
| "b64encode [a, b] = take 3 (b64_group a b 0) @ ''=''"
| "b64encode [a] = take 2 (b64_group a 0 0) @ ''==''"
| "b64encode [] = []"

text \<open>
  Decoding of padded base64 text, the inverse that \<^verbatim>\<open>base64.b64decode\<close> computes on
  the encoder's output: groups of four characters, padding only in the last group.
\<close>

fun b64decode :: "string \<Rightarrow> byte list option" where
  "b64decode [] = Some []"
| "b64decode (c1 # c2 # c3 # c4 # rest) =
     (if rest = [] \<and> c3 = CHR ''='' \<and> c4 = CHR ''='' then
        (case (b64_value c1, b64_value c2) of
           (Some s1, Some s2) \<Rightarrow> Some [of_nat ((s1 * 64 + s2) div 16)]
         | _ \<Rightarrow> None)
      else if rest = [] \<and> c4 = CHR ''='' then
        (case (b64_value c1, b64_value c2, b64_value c3) of
           (Some s1, Some s2, Some s3) \<Rightarrow>
             Some [of_nat ((s1 * 4096 + s2 * 64 + s3) div 1024),
                   of_nat ((s1 * 4096 + s2 * 64 + s3) div 4 mod 256)]
         | _ \<Rightarrow> None)
      else
        (case (b64_value c1, b64_value c2, b64_value c3, b64_value c4) of
           (Some s1, Some s2, Some s3, Some s4) \<Rightarrow>
             (case b64decode rest of
                None \<Rightarrow> None
              | Some bs \<Rightarrow>
                  Some (of_nat ((s1 * 262144 + s2 * 4096 + s3 * 64 + s4) div 65536)
                      # of_nat ((s1 * 262144 + s2 * 4096 + s3 * 64 + s4) div 256 mod 256)
                      # of_nat ((s1 * 262144 + s2 * 4096 + s3 * 64 + s4) mod 256)
                      # bs))
         | _ \<Rightarrow> None))"
| "b64decode _ = None"

section \<open>The external collaborators\<close>

text \<open>
  The store (\<^verbatim>\<open>STORE = ArtifactStore()\<close>), the session resolver
  \<^verbatim>\<open>validate_session_parameter\<close>, the string codecs and the validation library are
  not part of this repository: they are parameters.  A store method takes the store's
  state \<open>'s\<close> and gives an exception or a value, and the next state.
  \<^verbatim>\<open>STORE.read_file\<close> returns text when \<^verbatim>\<open>as_text\<close> is set and bytes otherwise, so
  it is two functions here.
\<close>

record store_args =
  sa_data :: "byte list"
  sa_mime :: string
  sa_summary :: string
  sa_filename :: string
  sa_session_id :: string
  sa_meta :: pydict

record write_args =
  wa_content :: string
  wa_filename :: string
  wa_mime :: string
  wa_summary :: string
  wa_session_id :: string
  wa_meta :: pydict
  wa_encoding :: string
  wa_overwrite_artifact_id :: "string option"

record 's env =
  validate_session_parameter :: "string option \<Rightarrow> string \<Rightarrow> exn + string"
  int_field :: "pyval \<Rightarrow> int option"
  str_encode :: "string \<Rightarrow> string \<Rightarrow> exn + byte list"
  be_store :: "store_args \<Rightarrow> 's \<Rightarrow> (exn + string) \<times> 's"
  be_write_file :: "write_args \<Rightarrow> 's \<Rightarrow> (exn + string) \<times> 's"
  be_metadata :: "string \<Rightarrow> 's \<Rightarrow> (exn + raw_meta) \<times> 's"
  be_retrieve :: "string \<Rightarrow> 's \<Rightarrow> (exn + byte list) \<times> 's"
  be_list_by_prefix :: "string \<Rightarrow> string \<Rightarrow> nat \<Rightarrow> 's \<Rightarrow> (exn + raw_meta list) \<times> 's"
  be_get_directory_contents ::
    "string \<Rightarrow> string \<Rightarrow> nat \<Rightarrow> 's \<Rightarrow> (exn + raw_meta list) \<times> 's"
  be_presign_short :: "string \<Rightarrow> 's \<Rightarrow> (exn + string) \<times> 's"
  be_presign_medium :: "string \<Rightarrow> 's \<Rightarrow> (exn + string) \<times> 's"
  be_delete :: "string \<Rightarrow> 's \<Rightarrow> (exn + bool) \<times> 's"
  be_copy_file ::
    "string \<Rightarrow> string option \<Rightarrow> string option \<Rightarrow> pydict \<Rightarrow> 's \<Rightarrow> (exn + string) \<times> 's"
  be_read_text :: "string \<Rightarrow> string \<Rightarrow> 's \<Rightarrow> (exn + string) \<times> 's"
  be_read_bytes :: "string \<Rightarrow> string \<Rightarrow> 's \<Rightarrow> (exn + byte list) \<times> 's"

text \<open>
  What a tool does to the outside: the calls it makes on the store, in order and with
  their arguments, and the lines it writes to the log.
\<close>

datatype call =
    Call_store store_args
  | Call_write_file write_args
  | Call_metadata string
  | Call_retrieve string
  | Call_list_by_prefix string string nat
  | Call_get_directory_contents string string nat
  | Call_presign_short string
  | Call_presign_medium string
  | Call_delete string
  | Call_copy_file string "string option" "string option" pydict
  | Call_read_file string bool string

datatype log_entry =
    Log_info string exn
  | Log_warning string string

record 's world =
  backend :: 's
  calls :: "call list"
  logged :: "log_entry list"

definition invoke :: "call \<Rightarrow> ('s \<Rightarrow> 'a \<times> 's) \<Rightarrow> 's world \<Rightarrow> 'a \<times> 's world" where
  "invoke c f w =
     (case f (backend w) of (r, s') \<Rightarrow> (r, w\<lparr>backend := s', calls := calls w @ [c]\<rparr>))"

definition log_line :: "log_entry \<Rightarrow> 's world \<Rightarrow> 's world" where
  "log_line l w = w\<lparr>logged := logged w @ [l]\<rparr>"

definition STORE_store :: "'s env \<Rightarrow> store_args \<Rightarrow> 's world \<Rightarrow> (exn + string) \<times> 's world" where
  "STORE_store env a = invoke (Call_store a) (be_store env a)"

definition STORE_write_file ::
  "'s env \<Rightarrow> write_args \<Rightarrow> 's world \<Rightarrow> (exn + string) \<times> 's world" where
  "STORE_write_file env a = invoke (Call_write_file a) (be_write_file env a)"

definition STORE_metadata ::
  "'s env \<Rightarrow> string \<Rightarrow> 's world \<Rightarrow> (exn + raw_meta) \<times> 's world" where
  "STORE_metadata env a = invoke (Call_metadata a) (be_metadata env a)"

definition STORE_retrieve ::
  "'s env \<Rightarrow> string \<Rightarrow> 's world \<Rightarrow> (exn + byte list) \<times> 's world" where
  "STORE_retrieve env a = invoke (Call_retrieve a) (be_retrieve env a)"

definition STORE_list_by_prefix ::
  "'s env \<Rightarrow> string \<Rightarrow> string \<Rightarrow> nat \<Rightarrow> 's world \<Rightarrow> (exn + raw_meta list) \<times> 's world" where
  "STORE_list_by_prefix env s p n = invoke (Call_list_by_prefix s p n) (be_list_by_prefix env s p n)"

definition STORE_get_directory_contents ::
  "'s env \<Rightarrow> string \<Rightarrow> string \<Rightarrow> nat \<Rightarrow> 's world \<Rightarrow> (exn + raw_meta list) \<times> 's world" where
  "STORE_get_directory_contents env s d n =
     invoke (Call_get_directory_contents s d n) (be_get_directory_contents env s d n)"

definition STORE_presign_short ::
  "'s env \<Rightarrow> string \<Rightarrow> 's world \<Rightarrow> (exn + string) \<times> 's world" where
  "STORE_presign_short env a = invoke (Call_presign_short a) (be_presign_short env a)"

definition STORE_presign_medium ::
  "'s env \<Rightarrow> string \<Rightarrow> 's world \<Rightarrow> (exn + string) \<times> 's world" where
  "STORE_presign_medium env a = invoke (Call_presign_medium a) (be_presign_medium env a)"

definition STORE_delete :: "'s env \<Rightarrow> string \<Rightarrow> 's world \<Rightarrow> (exn + bool) \<times> 's world" where
  "STORE_delete env a = invoke (Call_delete a) (be_delete env a)"

definition STORE_copy_file ::
  "'s env \<Rightarrow> string \<Rightarrow> string option \<Rightarrow> string option \<Rightarrow> pydict \<Rightarrow> 's world
     \<Rightarrow> (exn + string) \<times> 's world" where
  "STORE_copy_file env a new_filename target_session_id new_meta =
     invoke (Call_copy_file a new_filename target_session_id new_meta)
       (be_copy_file env a new_filename target_session_id new_meta)"

definition STORE_read_text ::
  "'s env \<Rightarrow> string \<Rightarrow> string \<Rightarrow> 's world \<Rightarrow> (exn + string) \<times> 's world" where
  "STORE_read_text env a enc = invoke (Call_read_file a True enc) (be_read_text env a enc)"

definition STORE_read_bytes ::
  "'s env \<Rightarrow> string \<Rightarrow> string \<Rightarrow> 's world \<Rightarrow> (exn + byte list) \<times> 's world" where
  "STORE_read_bytes env a enc = invoke (Call_read_file a False enc) (be_read_bytes env a enc)"

section \<open>Result models (models.py)\<close>

record ListSessionFilesResult =
  count :: int
  session_id :: string
  artifacts :: "ArtifactInfo list"

record ListDirectoryResult =
  count :: int
  session_id :: string
  directory :: string
  artifacts :: "ArtifactInfo list"

record DownloadFileResult =
  artifact :: ArtifactInfo
  download_url :: "string option"
  data_base64 :: "string option"

record DeleteFileResult =
  success :: bool
  artifact_id :: string

record CopyFileResult = ArtifactInfo +
  source_artifact_id :: string
  operation :: string

record ReadFileResult =
  artifact_id :: string
  content_type :: string
  content :: "string option"
  content_base64 :: "string option"
  encoding :: "string option"
  bytes :: "int option"

record WriteFileResult = ArtifactInfo +
  download_url :: "string option"
  operation :: string

section \<open>Helper functions of tools.py\<close>

text \<open>
  \<^verbatim>\<open>_presign_or_inline\<close>, lines 127-139.  The returned dictionary has the two keys
  \<^verbatim>\<open>download_url\<close> and \<^verbatim>\<open>data_base64\<close>; it is the pair of their values, in this order.
  \<^verbatim>\<open>presign_medium\<close> returns a string, so a returned URL is not \<^verbatim>\<open>None\<close>.  The log
  message is written here with an ASCII dash.
\<close>

definition presign_or_inline ::
  "'s env \<Rightarrow> string \<Rightarrow> bool \<Rightarrow> 's world
     \<Rightarrow> (exn + string option \<times> string option) \<times> 's world" where
  "presign_or_inline env art_id presign w =
     (let inline = (\<lambda>w0.
            case STORE_retrieve env art_id w0 of
              (Inl e, w1) \<Rightarrow> (Inl e, w1)
            | (Inr data, w1) \<Rightarrow> (Inr (None, Some (b64encode data)), w1))
      in if presign then
           (case STORE_presign_medium env art_id w of
              (Inr url, w1) \<Rightarrow> (Inr (Some url, None), w1)
            | (Inl exc, w1) \<Rightarrow>
                inline (log_line (Log_info ''Presign unavailable - falling back to inline'' exc) w1))
         else inline w)"

text \<open>\<^verbatim>\<open>_store_and_build_info\<close>, lines 142-153.\<close>

definition store_and_build_info ::
  "'s env \<Rightarrow> byte list \<Rightarrow> string \<Rightarrow> string \<Rightarrow> string \<Rightarrow> string \<Rightarrow> pydict \<Rightarrow> 's world
     \<Rightarrow> (exn + string \<times> ArtifactInfo) \<times> 's world" where
  "store_and_build_info env data fname mime_type summ sess m w =
     (case STORE_store env
             \<lparr>sa_data = data, sa_mime = mime_type, sa_summary = summ,
              sa_filename = fname, sa_session_id = sess, sa_meta = m\<rparr> w of
        (Inl e, w1) \<Rightarrow> (Inl e, w1)
      | (Inr art_id, w1) \<Rightarrow>
          (case STORE_metadata env art_id w1 of
             (Inl e, w2) \<Rightarrow> (Inl e, w2)
           | (Inr meta_raw, w2) \<Rightarrow>
               (case info (int_field env) meta_raw (Some art_id) (VStr sess) of
                  Inl e \<Rightarrow> (Inl e, w2)
                | Inr i \<Rightarrow> (Inr (art_id, i), w2))))"

text \<open>
  The list comprehension \<^verbatim>\<open>[await _info(m, fallback_session_id=sess) for m in meta_list]\<close>
  of the two listing tools: the first exception ends it.
\<close>

fun info_each :: "(pyval \<Rightarrow> int option) \<Rightarrow> raw_meta list \<Rightarrow> string \<Rightarrow> exn + ArtifactInfo list" where
  "info_each intf [] sess = Inr []"
| "info_each intf (m # ms) sess =
     (case info intf m None (VStr sess) of
        Inl e \<Rightarrow> Inl e
      | Inr a \<Rightarrow>
          (case info_each intf ms sess of
             Inl e \<Rightarrow> Inl e
           | Inr as \<Rightarrow> Inr (a # as)))"

text \<open>
  The first \<^verbatim>\<open>try\<close> block of a session-aware tool resolves the session and builds the
  typed input model.  With arguments of the declared types the input model cannot be
  rejected; of what the resolver raises, only a \<^verbatim>\<open>ValidationError\<close> is caught and
  wrapped, everything else propagates.
\<close>

definition resolve_session :: "'s env \<Rightarrow> string option \<Rightarrow> string \<Rightarrow> string \<Rightarrow> exn + string" where
  "resolve_session env sid tool invalid_msg =
     (case validate_session_parameter env sid tool of
        Inl ValidationError \<Rightarrow> Inl (ValueError invalid_msg ValidationError)
      | Inl e \<Rightarrow> Inl e
      | Inr sess \<Rightarrow> Inr sess)"

section \<open>The tools\<close>

text \<open>\<^verbatim>\<open>list_session_files\<close>, lines 162-176.\<close>

definition list_session_files ::
  "'s env \<Rightarrow> string option \<Rightarrow> string option \<Rightarrow> 's world
     \<Rightarrow> (exn + ListSessionFilesResult) \<times> 's world" where
  "list_session_files env sid prefix_arg w =
     (case resolve_session env sid ''list_session_files'' ''Invalid input: '' of
        Inl e \<Rightarrow> (Inl e, w)
      | Inr sess \<Rightarrow>
          (case STORE_list_by_prefix env sess (case prefix_arg of None \<Rightarrow> [] | Some p \<Rightarrow> p) 1000 w of
             (Inl exc, w1) \<Rightarrow> (Inl (ValueError ''Failed to list session files: '' exc), w1)
           | (Inr meta_list, w1) \<Rightarrow>
               (case info_each (int_field env) meta_list sess of
                  Inl exc \<Rightarrow> (Inl (ValueError ''Failed to list session files: '' exc), w1)
                | Inr arts \<Rightarrow>
                    (Inr \<lparr>ListSessionFilesResult.count = int (length arts),
                          ListSessionFilesResult.session_id = sess,
                          ListSessionFilesResult.artifacts = arts\<rparr>, w1))))"

text \<open>\<^verbatim>\<open>list_directory\<close>, lines 183-197.\<close>

definition list_directory ::
  "'s env \<Rightarrow> string \<Rightarrow> string option \<Rightarrow> 's world
     \<Rightarrow> (exn + ListDirectoryResult) \<times> 's world" where
  "list_directory env dir sid w =
     (case resolve_session env sid ''list_directory'' ''Invalid directory input: '' of
        Inl e \<Rightarrow> (Inl e, w)
      | Inr sess \<Rightarrow>
          (case STORE_get_directory_contents env sess dir 1000 w of
             (Inl exc, w1) \<Rightarrow> (Inl (ValueError ''Failed to list directory: '' exc), w1)
           | (Inr meta_list, w1) \<Rightarrow>
               (case info_each (int_field env) meta_list sess of
                  Inl exc \<Rightarrow> (Inl (ValueError ''Failed to list directory: '' exc), w1)
                | Inr arts \<Rightarrow>
                    (Inr \<lparr>ListDirectoryResult.count = int (length arts),
                          ListDirectoryResult.session_id = sess,
                          ListDirectoryResult.directory = dir,
                          ListDirectoryResult.artifacts = arts\<rparr>, w1))))"

text \<open>\<^verbatim>\<open>download_file\<close>, lines 300-314.\<close>

definition download_file ::
  "'s env \<Rightarrow> string \<Rightarrow> bool \<Rightarrow> 's world \<Rightarrow> (exn + DownloadFileResult) \<times> 's world" where
  "download_file env art_id presign w =
     (case STORE_metadata env art_id w of
        (Inl exc, w1) \<Rightarrow> (Inl (ValueError [] exc), w1)
      | (Inr m, w1) \<Rightarrow>
          (case info (int_field env) m (Some art_id) (dict_get m ''session_id'') of
             Inl e \<Rightarrow> (Inl e, w1)
           | Inr i \<Rightarrow>
               (case presign_or_inline env art_id presign w1 of
                  (Inl e, w2) \<Rightarrow> (Inl e, w2)
                | (Inr (url, data), w2) \<Rightarrow>
                    (Inr \<lparr>artifact = i,
                          DownloadFileResult.download_url = url,
                          data_base64 = data\<rparr>, w2))))"

text \<open>\<^verbatim>\<open>get_metadata\<close>, lines 320-332.\<close>

definition get_metadata ::
  "'s env \<Rightarrow> string \<Rightarrow> 's world \<Rightarrow> (exn + ArtifactInfo) \<times> 's world" where
  "get_metadata env art_id w =
     (case STORE_metadata env art_id w of
        (Inl exc, w1) \<Rightarrow> (Inl (ValueError [] exc), w1)
      | (Inr m, w1) \<Rightarrow>
          (info (int_field env) m (Some art_id) (dict_get m ''session_id''), w1))"

text \<open>\<^verbatim>\<open>delete_file\<close>, lines 359-371.  \<^verbatim>\<open>STORE.delete\<close> answers with a boolean, which
  \<^verbatim>\<open>bool(success)\<close> leaves as it is.\<close>

definition delete_file ::
  "'s env \<Rightarrow> string \<Rightarrow> 's world \<Rightarrow> (exn + DeleteFileResult) \<times> 's world" where
  "delete_file env art_id w =
     (case STORE_delete env art_id w of
        (Inl exc, w1) \<Rightarrow> (Inl (ValueError [] exc), w1)
      | (Inr ok, w1) \<Rightarrow>
          (Inr \<lparr>success = ok, DeleteFileResult.artifact_id = art_id\<rparr>, w1))"

text \<open>\<^verbatim>\<open>copy_file\<close>, lines 377-397.  The tool has no session parameter: the input model
  gets \<^verbatim>\<open>session_id=None\<close> and the store \<^verbatim>\<open>target_session_id=None\<close>.\<close>

definition copy_file ::
  "'s env \<Rightarrow> string \<Rightarrow> string option \<Rightarrow> pydict option \<Rightarrow> 's world
     \<Rightarrow> (exn + CopyFileResult) \<times> 's world" where
  "copy_file env art_id fname m w =
     (case STORE_copy_file env art_id fname None (case m of None \<Rightarrow> [] | Some d \<Rightarrow> d) w of
        (Inl exc, w1) \<Rightarrow> (Inl (ValueError [] exc), w1)
      | (Inr new_id, w1) \<Rightarrow>
          (case STORE_metadata env new_id w1 of
             (Inl exc, w2) \<Rightarrow> (Inl (ValueError [] exc), w2)
           | (Inr meta_new, w2) \<Rightarrow>
               (case info (int_field env) meta_new (Some new_id) (dict_get meta_new ''session_id'') of
                  Inl e \<Rightarrow> (Inl e, w2)
                | Inr i \<Rightarrow>
                    (Inr (ArtifactInfo.extend i (CopyFileResult.fields art_id ''copy'')), w2))))"

text \<open>\<^verbatim>\<open>read_file\<close>, lines 421-440.\<close>

definition read_file ::
  "'s env \<Rightarrow> string \<Rightarrow> bool \<Rightarrow> string \<Rightarrow> 's world \<Rightarrow> (exn + ReadFileResult) \<times> 's world" where
  "read_file env art_id as_text enc w =
     (if as_text then
        (case STORE_read_text env art_id enc w of
           (Inl exc, w1) \<Rightarrow> (Inl (ValueError [] exc), w1)
         | (Inr txt, w1) \<Rightarrow>
             (Inr \<lparr>ReadFileResult.artifact_id = art_id, content_type = ''text'',
                   content = Some txt, content_base64 = None,
                   encoding = Some enc, ReadFileResult.bytes = None\<rparr>, w1))
      else
        (case STORE_read_bytes env art_id enc w of
           (Inl exc, w1) \<Rightarrow> (Inl (ValueError [] exc), w1)
         | (Inr data, w1) \<Rightarrow>
             (Inr \<lparr>ReadFileResult.artifact_id = art_id, content_type = ''binary'',
                   content = None, content_base64 = Some (b64encode data),
                   encoding = None, ReadFileResult.bytes = Some (int (length data))\<rparr>, w1)))"

subsection \<open>\<^verbatim>\<open>write_file\<close> (safe overwrite), lines 244-294\<close>

text \<open>The two texts the handler looks for in a \<^verbatim>\<open>ProviderError\<close> message (line 274).\<close>

definition cross_session_text :: string where
  "cross_session_text = ''Cross-session overwrite not permitted''"

definition session_none_text :: string where
  "session_none_text = ''belongs to session '' @ [CHR 0x27] @ ''None'' @ [CHR 0x27]"

text \<open>Lines 252-257: the input model \<^verbatim>\<open>WriteFileInput\<close> built from the arguments and the
  resolved session.\<close>

definition write_input ::
  "string \<Rightarrow> string \<Rightarrow> string \<Rightarrow> string \<Rightarrow> string \<Rightarrow> pydict option \<Rightarrow> string \<Rightarrow> string option
     \<Rightarrow> write_args" where
  "write_input text fname sess mime_type summ m enc overwrite_artifact_id =
     \<lparr>wa_content = text, wa_filename = fname, wa_mime = mime_type,
      wa_summary = (if summ \<noteq> [] then summ else ''Written file: '' @ fname),
      wa_session_id = sess,
      wa_meta = (case m of None \<Rightarrow> [] | Some d \<Rightarrow> d),
      wa_encoding = enc,
      wa_overwrite_artifact_id = overwrite_artifact_id\<rparr>"

text \<open>Lines 263-269, the body of the \<^verbatim>\<open>try\<close>: write, read the metadata back, normalize.\<close>

definition write_file_attempt ::
  "'s env \<Rightarrow> write_args \<Rightarrow> 's world \<Rightarrow> (exn + string \<times> ArtifactInfo) \<times> 's world" where
  "write_file_attempt env inp w =
     (case STORE_write_file env inp w of
        (Inl e, w1) \<Rightarrow> (Inl e, w1)
      | (Inr art_id, w1) \<Rightarrow>
          (case STORE_metadata env art_id w1 of
             (Inl e, w2) \<Rightarrow> (Inl e, w2)
           | (Inr meta_raw, w2) \<Rightarrow>
               (case info (int_field env) meta_raw (Some art_id) (VStr (wa_session_id inp)) of
                  Inl e \<Rightarrow> (Inl e, w2)
                | Inr i \<Rightarrow> (Inr (art_id, i), w2))))"

text \<open>Lines 275-284, the graceful overwrite fallback: delete the old artefact, a failure
  of which is only logged, then store the content afresh in the caller's session.\<close>

definition write_file_fallback ::
  "'s env \<Rightarrow> write_args \<Rightarrow> string \<Rightarrow> 's world \<Rightarrow> (exn + string \<times> ArtifactInfo) \<times> 's world" where
  "write_file_fallback env inp old_id w =
     (let w2 = (case STORE_delete env old_id w of
                  (Inl exc, w1) \<Rightarrow> log_line (Log_warning ''Failed to delete old artefact'' old_id) w1
                | (Inr ok, w1) \<Rightarrow> w1)
      in case str_encode env (wa_content inp) (wa_encoding inp) of
           Inl e \<Rightarrow> (Inl e, w2)
         | Inr data \<Rightarrow>
             store_and_build_info env data (wa_filename inp) (wa_mime inp) (wa_summary inp)
               (wa_session_id inp) (wa_meta inp) w2)"

text \<open>Lines 288-294: the short presigned URL, \<^verbatim>\<open>None\<close> when presigning raises, and the
  operation tag.\<close>

definition write_file_result ::
  "'s env \<Rightarrow> string option \<Rightarrow> string \<times> ArtifactInfo \<Rightarrow> 's world
     \<Rightarrow> (exn + WriteFileResult) \<times> 's world" where
  "write_file_result env overwrite_artifact_id r w =
     (case r of (art_id, i) \<Rightarrow>
       (case STORE_presign_short env art_id w of
          (res, w1) \<Rightarrow>
            (Inr (ArtifactInfo.extend i
                   (WriteFileResult.fields
                      (case res of Inl exc \<Rightarrow> None | Inr url \<Rightarrow> Some url)
                      (if truthy (of_opt_str overwrite_artifact_id)
                       then ''overwrite'' else ''create''))), w1)))"

definition write_file ::
  "'s env \<Rightarrow> string \<Rightarrow> string \<Rightarrow> string option \<Rightarrow> string \<Rightarrow> string \<Rightarrow> pydict option \<Rightarrow> string
     \<Rightarrow> string option \<Rightarrow> 's world \<Rightarrow> (exn + WriteFileResult) \<times> 's world" where
  "write_file env text fname sid mime_type summ m enc overwrite_artifact_id w =
     (case resolve_session env sid ''write_file'' ''Invalid write input: '' of
        Inl e \<Rightarrow> (Inl e, w)
      | Inr sess \<Rightarrow>
          (let inp = write_input text fname sess mime_type summ m enc overwrite_artifact_id
           in case write_file_attempt env inp w of
                (Inr r, w1) \<Rightarrow> write_file_result env overwrite_artifact_id r w1
              | (Inl (ProviderError msg), w1) \<Rightarrow>
                  (case overwrite_artifact_id of
                     Some old_id \<Rightarrow>
                       if old_id \<noteq> [] \<and> str_contains cross_session_text msg
                          \<and> str_contains session_none_text msg
                       then (case write_file_fallback env inp old_id w1 of
                               (Inl e, w2) \<Rightarrow> (Inl e, w2)
                             | (Inr r, w2) \<Rightarrow> write_file_result env overwrite_artifact_id r w2)
                       else (Inl (ValueError [] (ProviderError msg)), w1)
                   | None \<Rightarrow> (Inl (ValueError [] (ProviderError msg)), w1))
              | (Inl e, w1) \<Rightarrow> (Inl e, w1)))"

section \<open>The normalizer's contract, in the words of the specification\<close>

text \<open>The last path segment of a key: the text after its last slash.\<close>

definition last_path_segment :: "string \<Rightarrow> string" where
  "last_path_segment k = rev (takeWhile (\<lambda>c. c \<noteq> CHR ''/'') (rev k))"

definition key_segment :: "raw_meta \<Rightarrow> string" where
  "key_segment m = (case dict_get m ''key'' of VStr k \<Rightarrow> last_path_segment k | _ \<Rightarrow> [])"

text \<open>
  The resolution order of \<^verbatim>\<open>artifact_id\<close>: the raw \<^verbatim>\<open>artifact_id\<close> field, then the raw
  \<^verbatim>\<open>id\<close> field, then the last path segment of the raw \<^verbatim>\<open>key\<close> field, then the caller's
  fallback; a source counts when it is present and not empty.
\<close>

definition spec_artifact_id :: "raw_meta \<Rightarrow> string option \<Rightarrow> pyval" where
  "spec_artifact_id m fb =
     (if truthy (dict_get m ''artifact_id'') then dict_get m ''artifact_id''
      else if truthy (dict_get m ''id'') then dict_get m ''id''
      else if key_segment m \<noteq> [] then VStr (key_segment m)
      else of_opt_str fb)"

text \<open>Every source of an identifier is empty or absent.\<close>

definition no_id_source :: "raw_meta \<Rightarrow> string option \<Rightarrow> bool" where
  "no_id_source m fb =
     (\<not> truthy (dict_get m ''artifact_id'') \<and> \<not> truthy (dict_get m ''id'')
      \<and> (case dict_get m ''key'' of VStr k \<Rightarrow> last_path_segment k = [] | v \<Rightarrow> \<not> truthy v)
      \<and> (case fb of None \<Rightarrow> True | Some f \<Rightarrow> f = []))"

text \<open>
  The chain reaches the \<^verbatim>\<open>key\<close> field (no \<^verbatim>\<open>artifact_id\<close>, no \<^verbatim>\<open>id\<close>) and finds there a
  true value that is not a string, which has no path segments.
\<close>

definition key_unreadable :: "raw_meta \<Rightarrow> bool" where
  "key_unreadable m =
     (\<not> truthy (dict_get m ''artifact_id'') \<and> \<not> truthy (dict_get m ''id'')
      \<and> truthy (dict_get m ''key'') \<and> str_field (dict_get m ''key'') = None)"

text \<open>
  The fields of a raw record other than the identifier are fit for a descriptor: \<^verbatim>\<open>mime\<close>,
  \<^verbatim>\<open>bytes\<close> and \<^verbatim>\<open>stored_at\<close> are present, and every field has a value of its declared
  type (the session after the fallback \<open>fs\<close> is applied).
\<close>

definition other_fields_valid :: "(pyval \<Rightarrow> int option) \<Rightarrow> raw_meta \<Rightarrow> pyval \<Rightarrow> bool" where
  "other_fields_valid intf m fs =
     ((case m ''mime'' of None \<Rightarrow> False | Some v \<Rightarrow> str_field v \<noteq> None)
      \<and> (case m ''bytes'' of None \<Rightarrow> False | Some v \<Rightarrow> intf v \<noteq> None)
      \<and> (case m ''stored_at'' of None \<Rightarrow> False | Some v \<Rightarrow> str_field v \<noteq> None)
      \<and> opt_str_field (dict_get m ''filename'') \<noteq> None
      \<and> opt_str_field (dict_get m ''summary'') \<noteq> None
      \<and> opt_str_field (py_or (dict_get m ''session_id'') fs) \<noteq> None
      \<and> dict_field (dict_get_default m ''meta'' (VDict [])) \<noteq> None)"

section \<open>Sessions, conflicts and the calls of the recovery\<close>

text \<open>The metadata \<open>m\<close> reports the session \<open>sess\<close>, or no session at all.\<close>

definition reports_session :: "string \<Rightarrow> raw_meta \<Rightarrow> bool" where
  "reports_session sess m =
     (if truthy (dict_get m ''session_id'') then dict_get m ''session_id'' = VStr sess else True)"

text \<open>The conflict that starts the overwrite recovery: a \<^verbatim>\<open>ProviderError\<close> whose message
  says that a cross-session overwrite is not permitted and that the object belongs to
  session \<^verbatim>\<open>'None'\<close>.\<close>

definition legacy_conflict :: "exn \<Rightarrow> bool" where
  "legacy_conflict e =
     (case e of
        ProviderError msg \<Rightarrow>
          str_contains cross_session_text msg \<and> str_contains session_none_text msg
      | _ \<Rightarrow> False)"

text \<open>How \<^verbatim>\<open>write_file\<close> surfaces an error of the overwrite stage that it does not
  recover from: a \<^verbatim>\<open>ProviderError\<close> as a \<^verbatim>\<open>ValueError\<close> with the same message, any
  other exception as it is.\<close>

definition surfaced :: "exn \<Rightarrow> exn" where
  "surfaced e = (case e of ProviderError msg \<Rightarrow> ValueError [] (ProviderError msg) | _ \<Rightarrow> e)"

text \<open>
  The calls a tool has made on the store between the world \<open>w\<close> it started in and the
  world \<open>w'\<close> it ended in; and the two calls of the recovery protocol, the delete of the old
  artefact and the store of the new one.
\<close>

definition new_calls :: "'s world \<Rightarrow> 's world \<Rightarrow> call list" where
  "new_calls w w' = drop (length (calls w)) (calls w')"

fun recovery_call :: "call \<Rightarrow> bool" where
  "recovery_call (Call_delete a) = True"
| "recovery_call (Call_store args) = True"
| "recovery_call c = False"

section \<open>The in-memory store of the tests (\<^verbatim>\<open>FakeStore\<close>, tests/test_artifact_tools.py)\<close>

text \<open>
  \<^verbatim>\<open>FakeStore._objects\<close> maps an artefact id to its metadata dictionary.  \<^verbatim>\<open>uuid4().hex\<close>
  is a fresh name drawn from a counter.  Session ids in the fake are strings or
  \<^verbatim>\<open>None\<close>, as its \<^verbatim>\<open>session_id\<close> parameters are typed, and the model follows the code
  for these.  The fake has no \<^verbatim>\<open>copy_file\<close> and no \<^verbatim>\<open>read_file\<close>: calling them raises
  \<^verbatim>\<open>AttributeError\<close>.  The environment \<open>FakeStore\<close> puts the fake behind the tools, with
  a session resolver that returns the session it is given and fails without one (no
  session in the context; an empty string counts as none), a codec that maps each
  character of an ASCII text to its byte, and an \<^verbatim>\<open>int\<close> field that takes integers.
\<close>

record fake_state =
  objects :: "(string \<times> pydict) list"
  issued :: nat

definition fresh_id :: "nat \<Rightarrow> string" where
  "fresh_id n = ''uuid'' @ replicate n (CHR ''+'')"

definition encode_bytes :: "string \<Rightarrow> byte list" where
  "encode_bytes s = map (\<lambda>c. of_nat (of_char c)) s"

definition int_only :: "pyval \<Rightarrow> int option" where
  "int_only v = (case v of VInt i \<Rightarrow> Some i | _ \<Rightarrow> None)"

definition fake_store :: "store_args \<Rightarrow> fake_state \<Rightarrow> (exn + string) \<times> fake_state" where
  "fake_store a s =
     (let new_id = fresh_id (issued s)
      in (Inr new_id,
          \<lparr>objects = AList.update new_id
              [(''artifact_id'', VStr new_id),
               (''filename'', VStr (sa_filename a)),
               (''mime'', VStr (sa_mime a)),
               (''bytes'', VInt (int (length (sa_data a)))),
               (''summary'', VStr (sa_summary a)),
               (''stored_at'', VStr ''2025-06-01T00:00:00Z''),
               (''session_id'', VStr (sa_session_id a)),
               (''meta'', VDict (sa_meta a))] (objects s),
           issued = Suc (issued s)\<rparr>))"

definition cross_session_message :: "string \<Rightarrow> string \<Rightarrow> string \<Rightarrow> string" where
  "cross_session_message art_id owner sess =
     ''Cross-session overwrite not permitted. Artifact '' @ art_id
       @ '' belongs to session '' @ [CHR 0x27] @ owner @ [CHR 0x27]
       @ '', cannot overwrite from session '' @ [CHR 0x27] @ sess @ [CHR 0x27] @ ''.''"

definition fake_write_file :: "write_args \<Rightarrow> fake_state \<Rightarrow> (exn + string) \<times> fake_state" where
  "fake_write_file a s =
     (let put = fake_store
            \<lparr>sa_data = encode_bytes (wa_content a), sa_mime = wa_mime a,
             sa_summary = wa_summary a, sa_filename = wa_filename a,
             sa_session_id = wa_session_id a, sa_meta = wa_meta a\<rparr>
      in case wa_overwrite_artifact_id a of
           None \<Rightarrow> put s
         | Some old_id \<Rightarrow>
             if old_id = [] then put s
             else (case map_of (objects s) old_id of
                     None \<Rightarrow> (Inl (KeyError old_id), s)
                   | Some old \<Rightarrow>
                       (case map_of old ''session_id'' of
                          None \<Rightarrow> (Inl (KeyError ''session_id''), s)
                        | Some (VStr owner) \<Rightarrow>
                            if owner \<noteq> wa_session_id a
                            then (Inl (ProviderError
                                    (cross_session_message old_id owner (wa_session_id a))), s)
                            else put (s\<lparr>objects := AList.delete old_id (objects s)\<rparr>)
                        | Some v \<Rightarrow> put (s\<lparr>objects := AList.delete old_id (objects s)\<rparr>))))"

definition fake_metadata :: "string \<Rightarrow> fake_state \<Rightarrow> (exn + raw_meta) \<times> fake_state" where
  "fake_metadata a s =
     (case map_of (objects s) a of
        None \<Rightarrow> (Inl (KeyError a), s)
      | Some d \<Rightarrow> (Inr (map_of d), s))"

text \<open>
  \<^verbatim>\<open>list_by_prefix\<close>: the comprehension over \<^verbatim>\<open>_objects.values()\<close>, in insertion order,
  with the test \<^verbatim>\<open>meta["session_id"] == session_id and meta["filename"].startswith(prefix)\<close>.
  A record without one of the two keys raises \<^verbatim>\<open>KeyError\<close>, a filename that is not a
  string \<^verbatim>\<open>AttributeError\<close>; the filename is looked at only when the session is the one
  asked for.
\<close>

fun fake_select :: "string \<Rightarrow> string \<Rightarrow> pydict list \<Rightarrow> exn + raw_meta list" where
  "fake_select sess p [] = Inr []"
| "fake_select sess p (d # ds) =
     (case map_of d ''session_id'' of
        None \<Rightarrow> Inl (KeyError ''session_id'')
      | Some v \<Rightarrow>
          if v = VStr sess then
            (case map_of d ''filename'' of
               None \<Rightarrow> Inl (KeyError ''filename'')
             | Some (VStr f) \<Rightarrow>
                 (case fake_select sess p ds of
                    Inl e \<Rightarrow> Inl e
                  | Inr ms \<Rightarrow> Inr (if prefix p f then map_of d # ms else ms))
             | Some u \<Rightarrow> Inl (AttributeError ''startswith''))
          else fake_select sess p ds)"

definition fake_list_by_prefix ::
  "string \<Rightarrow> string \<Rightarrow> nat \<Rightarrow> fake_state \<Rightarrow> (exn + raw_meta list) \<times> fake_state" where
  "fake_list_by_prefix sess p limit s = (fake_select sess p (map snd (objects s)), s)"

definition fake_delete :: "string \<Rightarrow> fake_state \<Rightarrow> (exn + bool) \<times> fake_state" where
  "fake_delete a s =
     (Inr (map_of (objects s) a \<noteq> None), s\<lparr>objects := AList.delete a (objects s)\<rparr>)"

definition FakeStore :: "fake_state env" where
  "FakeStore =
     \<lparr>validate_session_parameter =
        (\<lambda>sid tool. case sid of
                       None \<Rightarrow> Inl (Exception ''no session'')
                     | Some x \<Rightarrow> if x = [] then Inl (Exception ''no session'') else Inr x),
      int_field = int_only,
      str_encode = (\<lambda>text enc. Inr (encode_bytes text)),
      be_store = fake_store,
      be_write_file = fake_write_file,
      be_metadata = fake_metadata,
      be_retrieve = (\<lambda>a s. (Inr (encode_bytes ''dummy''), s)),
      be_list_by_prefix = fake_list_by_prefix,
      be_get_directory_contents = fake_list_by_prefix,
      be_presign_short = (\<lambda>a s. (Inr (''https://example/'' @ a), s)),
      be_presign_medium = (\<lambda>a s. (Inr (''https://example/medium/'' @ a), s)),
      be_delete = fake_delete,
      be_copy_file = (\<lambda>a fn t m s. (Inl (AttributeError ''copy_file''), s)),
      be_read_text = (\<lambda>a enc s. (Inl (AttributeError ''read_file''), s)),
      be_read_bytes = (\<lambda>a enc s. (Inl (AttributeError ''read_file''), s))\<rparr>"

text \<open>The state of the fake after \<^verbatim>\<open>store(..., session_id=None, ...)\<close> of the three bytes
  \<^verbatim>\<open>b"old"\<close>, as the legacy-object test sets it up; and a world that starts there.\<close>

definition legacy_state :: fake_state where
  "legacy_state =
     \<lparr>objects = [(''legacy1'',
          [(''artifact_id'', VStr ''legacy1''),
           (''filename'', VStr ''doc.txt''),
           (''mime'', VStr ''text/plain''),
           (''bytes'', VInt 3),
           (''summary'', VStr ''legacy''),
           (''stored_at'', VStr ''2025-06-01T00:00:00Z''),
           (''session_id'', VNone),
           (''meta'', VDict [])])],
      issued = 0\<rparr>"

definition start :: "'s \<Rightarrow> 's world" where
  "start s = \<lparr>backend = s, calls = [], logged = []\<rparr>"

section \<open>Raw metadata records used as examples\<close>

definition keyed_meta :: raw_meta where
  "keyed_meta =
     [''key'' \<mapsto> VStr ''grid/team42/XYZ'', ''mime'' \<mapsto> VStr ''text/plain'',
      ''bytes'' \<mapsto> VInt 3, ''stored_at'' \<mapsto> VStr ''2025-06-01T00:00:00Z'']"

definition anonymous_meta :: raw_meta where
  "anonymous_meta =
     [''mime'' \<mapsto> VStr ''text/plain'', ''bytes'' \<mapsto> VInt 3,
      ''stored_at'' \<mapsto> VStr ''2025-06-01T00:00:00Z'']"

definition legacy_meta :: raw_meta where
  "legacy_meta =
     [''artifact_id'' \<mapsto> VStr ''legacy1'', ''mime'' \<mapsto> VStr ''text/plain'',
      ''bytes'' \<mapsto> VInt 3, ''stored_at'' \<mapsto> VStr ''2025-06-01T00:00:00Z'',
      ''session_id'' \<mapsto> VNone]"

definition owned_meta :: raw_meta where
  "owned_meta =
     [''artifact_id'' \<mapsto> VStr ''a1'', ''mime'' \<mapsto> VStr ''text/plain'',
      ''bytes'' \<mapsto> VInt 11, ''stored_at'' \<mapsto> VStr ''2025-06-01T00:00:00Z'',
      ''session_id'' \<mapsto> VStr ''abc123'']"

section \<open>Variants of the in-memory store\<close>

text \<open>A store that cannot presign, one that can be read, and one whose \<^verbatim>\<open>delete\<close> fails.\<close>

definition no_presign_store :: "fake_state env" where
  "no_presign_store =
     FakeStore\<lparr>be_presign_medium := (\<lambda>a s. (Inl (Exception ''presign unsupported''), s))\<rparr>"

definition readable_store :: "fake_state env" where
  "readable_store =
     FakeStore\<lparr>be_read_text := (\<lambda>a enc s. (Inr ''dummy'', s)),
               be_read_bytes := (\<lambda>a enc s. (Inr (encode_bytes ''dummy''), s))\<rparr>"

text \<open>
  A store that refuses to overwrite an object it holds under another session, the
  objects without a session included, with the message of the fake; and the same store
  with a \<^verbatim>\<open>delete\<close> that always fails.
\<close>

definition strict_write_file :: "write_args \<Rightarrow> fake_state \<Rightarrow> (exn + string) \<times> fake_state" where
  "strict_write_file a s =
     (case wa_overwrite_artifact_id a of
        None \<Rightarrow> fake_write_file a s
      | Some old_id \<Rightarrow>
          (case map_of (objects s) old_id of
             None \<Rightarrow> fake_write_file a s
           | Some old \<Rightarrow>
               (let owner = (case map_of old ''session_id'' of
                               Some (VStr t) \<Rightarrow> t
                             | _ \<Rightarrow> ''None'')
                in if owner \<noteq> wa_session_id a
                   then (Inl (ProviderError
                           (cross_session_message old_id owner (wa_session_id a))), s)
                   else fake_write_file a s)))"

definition StrictStore :: "fake_state env" where
  "StrictStore = FakeStore\<lparr>be_write_file := strict_write_file\<rparr>"

definition StrictStore_no_delete :: "fake_state env" where
  "StrictStore_no_delete =
     StrictStore\<lparr>be_delete := (\<lambda>a s. (Inl (Exception ''delete failed''), s))\<rparr>"

text \<open>
  The strict store behind a codec that knows the encoding \<^verbatim>\<open>utf-8\<close> only: for any other
  name \<^verbatim>\<open>str.encode\<close> raises \<^verbatim>\<open>LookupError("unknown encoding: ...")\<close>, which is an
  \<open>Exception\<close> with that message here.  Only the codec of the handler is replaced: the
  store refuses an overwrite before it looks at the content.
\<close>

definition utf8_only :: "string \<Rightarrow> string \<Rightarrow> exn + byte list" where
  "utf8_only body enc =
     (if enc = ''utf-8'' then Inr (encode_bytes body)
      else Inl (Exception (''unknown encoding: '' @ enc)))"

definition StrictStore_utf8 :: "fake_state env" where
  "StrictStore_utf8 = StrictStore\<lparr>str_encode := utf8_only\<rparr>"

text \<open>
  A store that overwrites in place: the object keeps its id, its date and the session it
  was stored in, whoever writes; the other fields are replaced.
\<close>

definition in_place_write_file :: "write_args \<Rightarrow> fake_state \<Rightarrow> (exn + string) \<times> fake_state" where
  "in_place_write_file a s =
     (case wa_overwrite_artifact_id a of
        None \<Rightarrow> fake_write_file a s
      | Some old_id \<Rightarrow>
          if old_id = [] then fake_write_file a s
          else (case map_of (objects s) old_id of
                  None \<Rightarrow> (Inl (KeyError old_id), s)
                | Some old \<Rightarrow>
                    (Inr old_id,
                     s\<lparr>objects := AList.update old_id
                          (AList.update ''filename'' (VStr (wa_filename a))
                          (AList.update ''mime'' (VStr (wa_mime a))
                          (AList.update ''bytes'' (VInt (int (length (encode_bytes (wa_content a)))))
                          (AList.update ''summary'' (VStr (wa_summary a))
                          (AList.update ''meta'' (VDict (wa_meta a)) old)))))
                          (objects s)\<rparr>)))"

definition InPlaceStore :: "fake_state env" where
  "InPlaceStore = FakeStore\<lparr>be_write_file := in_place_write_file\<rparr>"

text \<open>The state of the fake after a write of eleven bytes in session \<^verbatim>\<open>abc123\<close>.\<close>

definition owned_state :: fake_state where
  "owned_state =
     \<lparr>objects = [(''uuid'',
          [(''artifact_id'', VStr ''uuid''),
           (''filename'', VStr ''hello.txt''),
           (''mime'', VStr ''text/plain''),
           (''bytes'', VInt 11),
           (''summary'', VStr ''demo''),
           (''stored_at'', VStr ''2025-06-01T00:00:00Z''),
           (''session_id'', VStr ''abc123''),
           (''meta'', VDict [])])],
      issued = 1\<rparr>"

definition empty_state :: fake_state where
  "empty_state = \<lparr>objects = [], issued = 0\<rparr>"

text \<open>
  The legacy-object test: \<^verbatim>\<open>write_file(content="new content", filename="doc.txt",
  session_id="team42", mime="text/plain", summary="overwrite", meta={},
  overwrite_artifact_id=legacy_id)\<close>; its input model, and the object, the descriptor and
  the store state that a fresh store of this content gives.
\<close>

definition new_doc_input :: write_args where
  "new_doc_input =
     write_input ''new content'' ''doc.txt'' ''team42'' ''text/plain'' ''overwrite'' (Some [])
       ''utf-8'' (Some ''legacy1'')"

definition new_doc_args :: store_args where
  "new_doc_args =
     \<lparr>sa_data = encode_bytes ''new content'', sa_mime = ''text/plain'',
      sa_summary = ''overwrite'', sa_filename = ''doc.txt'', sa_session_id = ''team42'',
      sa_meta = []\<rparr>"

definition new_doc_info :: ArtifactInfo where
  "new_doc_info =
     \<lparr>ArtifactInfo.artifact_id = ''uuid'', filename = Some ''doc.txt'', mime = ''text/plain'',
      ArtifactInfo.bytes = 11, summary = Some ''overwrite'',
      stored_at = ''2025-06-01T00:00:00Z'', ArtifactInfo.session_id = Some ''team42'',
      meta = []\<rparr>"

definition new_doc_state :: fake_state where
  "new_doc_state =
     \<lparr>objects = [(''uuid'',
          [(''artifact_id'', VStr ''uuid''),
           (''filename'', VStr ''doc.txt''),
           (''mime'', VStr ''text/plain''),
           (''bytes'', VInt 11),
           (''summary'', VStr ''overwrite''),
           (''stored_at'', VStr ''2025-06-01T00:00:00Z''),
           (''session_id'', VStr ''team42''),
           (''meta'', VDict [])])],
      issued = 1\<rparr>"

definition new_doc_result :: "string \<Rightarrow> WriteFileResult" where
  "new_doc_result op =
     ArtifactInfo.extend new_doc_info
       (WriteFileResult.fields (Some ''https://example/uuid'') op)"

text \<open>The legacy object and the new one side by side: the store after a recreate whose
  delete failed.\<close>

definition orphan_state :: fake_state where
  "orphan_state =
     \<lparr>objects = objects legacy_state @ objects new_doc_state, issued = 1\<rparr>"

text \<open>The same write with an empty \<^verbatim>\<open>overwrite_artifact_id\<close>.\<close>

definition empty_id_input :: write_args where
  "empty_id_input =
     write_input ''new content'' ''doc.txt'' ''team42'' ''text/plain'' ''overwrite'' (Some [])
       ''utf-8'' (Some [])"

text \<open>An overwrite of the object that session \<^verbatim>\<open>abc123\<close> owns, from session \<^verbatim>\<open>team42\<close>.\<close>

definition foreign_input :: write_args where
  "foreign_input =
     write_input ''new content'' ''doc.txt'' ''team42'' ''text/plain'' ''overwrite'' (Some [])
       ''utf-8'' (Some ''uuid'')"

text \<open>
  A \<^verbatim>\<open>copy_file\<close> for the in-memory store, as the store's interface describes it: the
  copy gets a fresh id, the new filename when one is given, the new metadata, and the
  source's session unless a target session is given.
\<close>

definition fake_copy_file ::
  "string \<Rightarrow> string option \<Rightarrow> string option \<Rightarrow> pydict \<Rightarrow> fake_state
     \<Rightarrow> (exn + string) \<times> fake_state" where
  "fake_copy_file a new_filename target_session_id new_meta s =
     (case map_of (objects s) a of
        None \<Rightarrow> (Inl (KeyError a), s)
      | Some d \<Rightarrow>
          (let new_id = fresh_id (issued s);
               d1 = (case new_filename of
                       None \<Rightarrow> d
                     | Some f \<Rightarrow> AList.update ''filename'' (VStr f) d);
               d2 = (case target_session_id of
                       None \<Rightarrow> d1
                     | Some t \<Rightarrow> AList.update ''session_id'' (VStr t) d1);
               d3 = AList.update ''meta'' (VDict new_meta) d2;
               d4 = AList.update ''artifact_id'' (VStr new_id) d3
           in (Inr new_id,
               \<lparr>objects = AList.update new_id d4 (objects s), issued = Suc (issued s)\<rparr>)))"

definition CopyStore :: "fake_state env" where
  "CopyStore = FakeStore\<lparr>be_copy_file := fake_copy_file\<rparr>"

text \<open>The store after a copy of the object of \<open>owned_state\<close> under the name \<^verbatim>\<open>copy.txt\<close>,
  and the descriptor of the copy.\<close>

definition copied_state :: fake_state where
  "copied_state =
     \<lparr>objects = objects owned_state @
        [(''uuid+'',
          [(''artifact_id'', VStr ''uuid+''),
           (''filename'', VStr ''copy.txt''),
           (''mime'', VStr ''text/plain''),
           (''bytes'', VInt 11),
           (''summary'', VStr ''demo''),
           (''stored_at'', VStr ''2025-06-01T00:00:00Z''),
           (''session_id'', VStr ''abc123''),
           (''meta'', VDict [])])],
      issued = 2\<rparr>"

definition copied_info :: ArtifactInfo where
  "copied_info =
     \<lparr>ArtifactInfo.artifact_id = ''uuid+'', filename = Some ''copy.txt'', mime = ''text/plain'',
      ArtifactInfo.bytes = 11, summary = Some ''demo'',
      stored_at = ''2025-06-01T00:00:00Z'', ArtifactInfo.session_id = Some ''abc123'',
      meta = []\<rparr>"

text \<open>
  A \<^verbatim>\<open>copy_file\<close> that copies the record as it is, but for the new filename and the new
  metadata: the copy is stored under a fresh id and its record still names the source in
  the field \<^verbatim>\<open>artifact_id\<close>.
\<close>

definition verbatim_copy_file ::
  "string \<Rightarrow> string option \<Rightarrow> string option \<Rightarrow> pydict \<Rightarrow> fake_state
     \<Rightarrow> (exn + string) \<times> fake_state" where
  "verbatim_copy_file a new_filename target_session_id new_meta s =
     (case map_of (objects s) a of
        None \<Rightarrow> (Inl (KeyError a), s)
      | Some d \<Rightarrow>
          (let new_id = fresh_id (issued s);
               d1 = (case new_filename of
                       None \<Rightarrow> d
                     | Some f \<Rightarrow> AList.update ''filename'' (VStr f) d);
               d2 = (case target_session_id of
                       None \<Rightarrow> d1
                     | Some t \<Rightarrow> AList.update ''session_id'' (VStr t) d1);
               d3 = AList.update ''meta'' (VDict new_meta) d2
           in (Inr new_id,
               \<lparr>objects = AList.update new_id d3 (objects s), issued = Suc (issued s)\<rparr>)))"

definition VerbatimCopyStore :: "fake_state env" where
  "VerbatimCopyStore = FakeStore\<lparr>be_copy_file := verbatim_copy_file\<rparr>"

text \<open>A raw record whose only identifier source is a \<^verbatim>\<open>key\<close> that is the number 5.\<close>

definition numeric_key_meta :: raw_meta where
  "numeric_key_meta =
     [''key'' \<mapsto> VInt 5, ''mime'' \<mapsto> VStr ''text/plain'',
      ''bytes'' \<mapsto> VInt 3, ''stored_at'' \<mapsto> VStr ''2025-06-01T00:00:00Z'']"

text \<open>
  The state of the fake after a write of eleven bytes in the session whose name is the
  four letters \<^verbatim>\<open>None\<close>; and the store, the descriptor and the result after that object
  is replaced by a fresh one of session \<^verbatim>\<open>team42\<close>.
\<close>

definition named_none_state :: fake_state where
  "named_none_state =
     \<lparr>objects = [(''uuid'',
          [(''artifact_id'', VStr ''uuid''),
           (''filename'', VStr ''hello.txt''),
           (''mime'', VStr ''text/plain''),
           (''bytes'', VInt 11),
           (''summary'', VStr ''demo''),
           (''stored_at'', VStr ''2025-06-01T00:00:00Z''),
           (''session_id'', VStr ''None''),
           (''meta'', VDict [])])],
      issued = 1\<rparr>"

definition renewed_state :: fake_state where
  "renewed_state =
     \<lparr>objects = [(''uuid+'',
          [(''artifact_id'', VStr ''uuid+''),
           (''filename'', VStr ''doc.txt''),
           (''mime'', VStr ''text/plain''),
           (''bytes'', VInt 11),
           (''summary'', VStr ''overwrite''),
           (''stored_at'', VStr ''2025-06-01T00:00:00Z''),
           (''session_id'', VStr ''team42''),
           (''meta'', VDict [])])],
      issued = 2\<rparr>"

definition renewed_result :: WriteFileResult where
  "renewed_result =
     ArtifactInfo.extend (new_doc_info\<lparr>ArtifactInfo.artifact_id := ''uuid+''\<rparr>)
       (WriteFileResult.fields (Some ''https://example/uuid+'') ''overwrite'')"

text \<open>The overwrite of the legacy object with an encoding that does not exist.\<close>

definition bogus_input :: write_args where
  "bogus_input =
     write_input ''new content'' ''doc.txt'' ''team42'' ''text/plain'' ''overwrite'' (Some [])
       ''bogus'' (Some ''legacy1'')"

text \<open>A store whose listings also return the objects that were stored without a session.\<close>

definition legacy_list ::
  "string \<Rightarrow> string \<Rightarrow> nat \<Rightarrow> fake_state \<Rightarrow> (exn + raw_meta list) \<times> fake_state" where
  "legacy_list sess p limit s =
     (Inr (map map_of
            (filter (\<lambda>d. (map_of d ''session_id'' = Some (VStr sess)
                           \<or> map_of d ''session_id'' = Some VNone)
                        \<and> (case map_of d ''filename'' of
                              Some (VStr f) \<Rightarrow> prefix p f
                            | _ \<Rightarrow> False))
               (map snd (objects s)))), s)"

definition LegacyListingStore :: "fake_state env" where
  "LegacyListingStore =
     FakeStore\<lparr>be_list_by_prefix := legacy_list, be_get_directory_contents := legacy_list\<rparr>"

text \<open>The descriptor of the legacy object as \<^verbatim>\<open>get_metadata\<close> and \<^verbatim>\<open>download_file\<close>
  return it.\<close>

definition legacy_info :: ArtifactInfo where
  "legacy_info =
     \<lparr>ArtifactInfo.artifact_id = ''legacy1'', filename = Some ''doc.txt'', mime = ''text/plain'',
      ArtifactInfo.bytes = 3, summary = Some ''legacy'',
      stored_at = ''2025-06-01T00:00:00Z'', ArtifactInfo.session_id = None,
      meta = []\<rparr>"

section \<open>Splitting strings\<close>

lemma str_split_nonempty: "str_split sep s \<noteq> []"
  by (induction s) (auto split: list.splits)

lemma str_split_no_sep: "sep \<notin> set s \<Longrightarrow> str_split sep s = [s]"
  by (induction s) auto

lemma length_str_split:
  "length (str_split sep s) = Suc (length (filter (\<lambda>c. c = sep) s))"
  by (induction s) (auto split: list.splits)

lemma str_split_sep_length: "sep \<in> set s \<Longrightarrow> length (str_split sep s) > 1"
  by (simp add: length_str_split filter_empty_conv)

lemma last_str_split:
  "last (str_split sep s) = rev (takeWhile (\<lambda>c. c \<noteq> sep) (rev s))"
proof (induction s)
  case Nil
  then show ?case by simp
next
  case (Cons c cs)
  show ?case
  proof (cases "c = sep")
    case True
    then show ?thesis using Cons str_split_nonempty[of sep cs]
      by (simp add: takeWhile_append)
  next
    case False
    show ?thesis
    proof (cases "sep \<in> set cs")
      case True
      then obtain p q ps where "str_split sep cs = p # q # ps"
        using str_split_sep_length[OF True]
        by (cases "str_split sep cs"; cases "tl (str_split sep cs)") auto
      then show ?thesis using Cons False True
        by (auto simp add: takeWhile_append)
    next
      case no: False
      then show ?thesis using False
        by (simp add: str_split_no_sep takeWhile_append)
    qed
  qed
qed

section \<open>Base64: decoding undoes encoding\<close>

lemma mod_block: "(z::nat) < m \<Longrightarrow> (k * m + z) mod m = z"
  by simp

lemma div_block: "(z::nat) < m \<Longrightarrow> (k * m + z) div m = k"
  by simp

lemma scale64: "(a::nat) * 64 + b = c \<Longrightarrow> a * 4096 + b * 64 = c * 64"
  by simp

lemma sextets_sum:
  "(n::nat) div 262144 * 262144 + n div 4096 mod 64 * 4096 + n div 64 mod 64 * 64 + n mod 64 = n"
proof -
  have a: "n div 4096 = n div 64 div 64" and b: "n div 262144 = n div 64 div 64 div 64"
    by (simp_all add: div_mult2_eq[symmetric])
  have "n = n div 64 * 64 + n mod 64" by simp
  moreover have "n div 64 = n div 64 div 64 * 64 + n div 64 mod 64" by simp
  moreover have "n div 64 div 64 = n div 64 div 64 div 64 * 64 + n div 64 div 64 mod 64" by simp
  ultimately show ?thesis unfolding a b by linarith
qed

lemma three_bytes:
  assumes "(x::nat) < 256" "y < 256" "z < 256"
  defines "n \<equiv> x * 65536 + y * 256 + z"
  shows "n div 262144 < 64" "n div 65536 = x" "n div 256 mod 256 = y" "n mod 256 = z"
proof -
  have e: "n = (x * 256 + y) * 256 + z" by (simp add: n_def)
  show "n div 262144 < 64" using assms(1-3) by (simp add: n_def)
  show "n div 65536 = x" using assms(1-3) by (simp add: n_def)
  have d: "n div 256 = x * 256 + y" unfolding e using assms(3) by (rule div_block)
  show "n div 256 mod 256 = y" unfolding d using assms(2) by (rule mod_block)
  show "n mod 256 = z" unfolding e using assms(3) by (rule mod_block)
qed

lemma two_bytes:
  assumes "(x::nat) < 256" "y < 256"
  defines "n \<equiv> x * 65536 + y * 256"
  shows "(n div 262144 * 4096 + n div 4096 mod 64 * 64 + n div 64 mod 64) div 1024 = x"
    and "(n div 262144 * 4096 + n div 4096 mod 64 * 64 + n div 64 mod 64) div 4 mod 256 = y"
proof -
  define t where "t = x * 1024 + y * 4"
  have a: "n div 64 = t" by (simp add: n_def t_def)
  have "n div (64 * 64) = n div 64 div 64" by (rule div_mult2_eq)
  then have b: "n div 4096 = t div 64" unfolding a by simp
  have "n div (4096 * 64) = n div 4096 div 64" by (rule div_mult2_eq)
  then have c: "n div 262144 = t div 64 div 64" unfolding b by simp
  define q where "q = t div 64"
  have s1: "q div 64 * 64 + q mod 64 = q" by (rule div_mult_mod_eq)
  have s2: "q * 64 + t mod 64 = t" unfolding q_def by (rule div_mult_mod_eq)
  have s3: "q div 64 * 4096 + q mod 64 * 64 = q * 64" using s1 by (rule scale64)
  have "q div 64 * 4096 + q mod 64 * 64 + t mod 64 = t" unfolding s3 by (rule s2)
  then have k: "n div 262144 * 4096 + n div 4096 mod 64 * 64 + n div 64 mod 64 = t"
    unfolding a b c q_def .
  have t1: "t = x * 1024 + y * 4" by (rule t_def)
  have y4: "y * 4 < 1024" using assms(2) by simp
  show "(n div 262144 * 4096 + n div 4096 mod 64 * 64 + n div 64 mod 64) div 1024 = x"
    unfolding k t1 using y4 by (rule div_block)
  have t2: "t = (x * 256 + y) * 4 + 0" by (simp add: t_def)
  have d: "t div 4 = x * 256 + y" unfolding t2 by (rule div_block) simp
  show "(n div 262144 * 4096 + n div 4096 mod 64 * 64 + n div 64 mod 64) div 4 mod 256 = y"
    unfolding k d using assms(2) by (rule mod_block)
qed

lemma one_byte:
  assumes "(x::nat) < 256"
  defines "n \<equiv> x * 65536"
  shows "(n div 262144 * 64 + n div 4096 mod 64) div 16 = x"
proof -
  have a: "n div 4096 = x * 16" by (simp add: n_def)
  have "n div (4096 * 64) = n div 4096 div 64" by (rule div_mult2_eq)
  then have b: "n div 262144 = x * 16 div 64" unfolding a by simp
  have c: "n div 262144 * 64 + n div 4096 mod 64 = x * 16"
    unfolding a b by (rule div_mult_mod_eq)
  show ?thesis unfolding c by simp
qed

lemma unat_byte_less: "unat (a :: byte) < 256"
  using unsigned_less[of a, where ?'a = nat] by simp

lemma b64_alphabet_distinct: "distinct b64_alphabet"
  unfolding b64_alphabet_def by simp

lemma b64_alphabet_length: "length b64_alphabet = 64"
  unfolding b64_alphabet_def by simp

lemma b64_value_char: "n < 64 \<Longrightarrow> b64_value (b64_char n) = Some n"
  unfolding b64_value_def b64_char_def
  using map_of_zip_nth[of b64_alphabet "[0..<64]" n]
  by (simp add: b64_alphabet_distinct b64_alphabet_length)

lemma b64_char_not_pad: "n < 64 \<Longrightarrow> b64_char n \<noteq> CHR ''=''"
proof -
  assume "n < 64"
  then have "b64_char n \<in> set b64_alphabet"
    by (simp add: b64_char_def b64_alphabet_length)
  moreover have "CHR ''='' \<notin> set b64_alphabet"
    unfolding b64_alphabet_def by simp
  ultimately show ?thesis by metis
qed

lemma b64_group_chars:
  fixes a b c :: byte
  defines "n \<equiv> unat a * 65536 + unat b * 256 + unat c"
  shows "b64_group a b c =
           [b64_char (n div 262144), b64_char (n div 4096 mod 64),
            b64_char (n div 64 mod 64), b64_char (n mod 64)]"
  by (simp add: b64_group_def n_def Let_def)

lemma b64decode_group:
  fixes a b c :: byte
  assumes "b64decode rest = Some bs"
  shows "b64decode (b64_group a b c @ rest) = Some (a # b # c # bs)"
proof -
  define n where "n = unat a * 65536 + unat b * 256 + unat c"
  define s1 s2 s3 s4 where "s1 = n div 262144" and "s2 = n div 4096 mod 64"
    and "s3 = n div 64 mod 64" and "s4 = n mod 64"
  have g: "b64_group a b c = [b64_char s1, b64_char s2, b64_char s3, b64_char s4]"
    unfolding s1_def s2_def s3_def s4_def n_def by (rule b64_group_chars)
  note tb = three_bytes[OF unat_byte_less[of a] unat_byte_less[of b] unat_byte_less[of c],
      folded n_def]
  have lt: "s1 < 64" "s2 < 64" "s3 < 64" "s4 < 64"
    using tb(1) by (simp_all add: s1_def s2_def s3_def s4_def)
  have sum: "s1 * 262144 + s2 * 4096 + s3 * 64 + s4 = n"
    unfolding s1_def s2_def s3_def s4_def by (rule sextets_sum)
  have "b64decode ([b64_char s1, b64_char s2, b64_char s3, b64_char s4] @ rest) =
          Some (of_nat (n div 65536) # of_nat (n div 256 mod 256) # of_nat (n mod 256) # bs)"
    using lt assms by (simp add: b64_value_char b64_char_not_pad sum)
  then show ?thesis unfolding g tb(2,3,4) by simp
qed

lemma b64decode_last2:
  fixes a b :: byte
  shows "b64decode (take 3 (b64_group a b 0) @ ''='') = Some [a, b]"
proof -
  define n where "n = unat a * 65536 + unat b * 256"
  define s1 s2 s3 where "s1 = n div 262144" and "s2 = n div 4096 mod 64"
    and "s3 = n div 64 mod 64"
  have g: "take 3 (b64_group a b 0) = [b64_char s1, b64_char s2, b64_char s3]"
    unfolding s1_def s2_def s3_def n_def by (simp add: b64_group_chars)
  note tb = three_bytes[OF unat_byte_less[of a] unat_byte_less[of b] unat_byte_less[of 0]]
  have lt: "s1 < 64" "s2 < 64" "s3 < 64"
    using tb(1) by (simp_all add: s1_def s2_def s3_def n_def)
  note w = two_bytes[OF unat_byte_less[of a] unat_byte_less[of b], folded n_def,
      folded s1_def s2_def s3_def]
  have "b64decode ([b64_char s1, b64_char s2, b64_char s3] @ ''='') =
          Some [of_nat ((s1 * 4096 + s2 * 64 + s3) div 1024),
                of_nat ((s1 * 4096 + s2 * 64 + s3) div 4 mod 256)]"
    using lt by (simp add: b64_value_char b64_char_not_pad)
  then show ?thesis unfolding g w by simp
qed

lemma b64decode_last1:
  fixes a :: byte
  shows "b64decode (take 2 (b64_group a 0 0) @ ''=='') = Some [a]"
proof -
  define n where "n = unat a * 65536"
  define s1 s2 where "s1 = n div 262144" and "s2 = n div 4096 mod 64"
  have g: "take 2 (b64_group a 0 0) = [b64_char s1, b64_char s2]"
    unfolding s1_def s2_def n_def by (simp add: b64_group_chars)
  note tb = three_bytes[OF unat_byte_less[of a] unat_byte_less[of 0] unat_byte_less[of 0]]
  have lt: "s1 < 64" "s2 < 64"
    using tb(1) by (simp_all add: s1_def s2_def n_def)
  note w = one_byte[OF unat_byte_less[of a], folded n_def, folded s1_def s2_def]
  have "b64decode ([b64_char s1, b64_char s2] @ ''=='') =
          Some [of_nat ((s1 * 64 + s2) div 16)]"
    using lt by (simp add: b64_value_char b64_char_not_pad)
  then show ?thesis unfolding g w by simp
qed

lemma b64decode_b64encode: "b64decode (b64encode bs) = Some bs"
proof (induction bs rule: b64encode.induct)
  case (1 a b c rest)
  then show ?case by (simp add: b64decode_group)
next
  case (2 a b)
  show ?case using b64decode_last2 by simp
next
  case (3 a)
  show ?case using b64decode_last1 by simp
next
  case 4
  show ?case by simp
qed

section \<open>The descriptor normalizer\<close>

lemma info_Inr_fields:
  assumes "info intf m fb fs = Inr d"
  shows "info_art_id m fb = Inr (VStr (ArtifactInfo.artifact_id d))"
    and "opt_str_field (py_or (dict_get m ''session_id'') fs) = Some (ArtifactInfo.session_id d)"
  using assms
  by (auto simp: info_def ArtifactInfo_model_validate_def
      split: sum.splits if_splits option.splits elim!: str_field.elims)

lemma info_art_id_spec:
  assumes "info_art_id m fb = Inr v"
  shows "v = spec_artifact_id m fb"
  using assms
  by (auto simp: info_art_id_def spec_artifact_id_def key_segment_def py_or_def
      last_path_segment_def last_str_split split: if_splits pyval.splits)

lemma no_id_source_art_id:
  assumes "no_id_source m fb"
  shows "\<exists>v. info_art_id m fb = Inr v \<and> \<not> truthy v"
  using assms
  by (auto simp: no_id_source_def info_art_id_def py_or_def last_path_segment_def last_str_split
      split: pyval.splits option.splits)

lemma info_legacy_meta:
  "info int_only legacy_meta None (VStr ''team42'') =
     Inr \<lparr>ArtifactInfo.artifact_id = ''legacy1'', filename = None, mime = ''text/plain'',
          ArtifactInfo.bytes = 3, summary = None, stored_at = ''2025-06-01T00:00:00Z'',
          ArtifactInfo.session_id = Some ''team42'', meta = []\<rparr>"
  by (simp add: info_def info_art_id_def legacy_meta_def dict_get_def dict_item_def
      dict_get_default_def py_or_def ArtifactInfo_model_validate_def int_only_def)

lemma info_owned_meta:
  "info int_only owned_meta None (VStr ''team42'') =
     Inr \<lparr>ArtifactInfo.artifact_id = ''a1'', filename = None, mime = ''text/plain'',
          ArtifactInfo.bytes = 11, summary = None, stored_at = ''2025-06-01T00:00:00Z'',
          ArtifactInfo.session_id = Some ''abc123'', meta = []\<rparr>"
  by (simp add: info_def info_art_id_def owned_meta_def dict_get_def dict_item_def
      dict_get_default_def py_or_def ArtifactInfo_model_validate_def int_only_def)

lemma info_art_id_readable:
  assumes "\<not> key_unreadable m"
  shows "info_art_id m fb = Inr (spec_artifact_id m fb)"
  using assms
  by (cases "dict_get m ''key''")
    (auto simp: key_unreadable_def info_art_id_def spec_artifact_id_def key_segment_def
      py_or_def last_path_segment_def last_str_split)

lemma info_key_unreadable:
  assumes "key_unreadable m"
  shows "info intf m fb fs = Inl (AttributeError ''split'')"
  using assms
  by (cases "dict_get m ''key''")
    (auto simp: key_unreadable_def info_def info_art_id_def py_or_def)

lemma info_returns:
  assumes "info_art_id m fb = Inr (VStr a)" and "a \<noteq> []" and "other_fields_valid intf m fs"
  shows "\<exists>d. info intf m fb fs = Inr d \<and> ArtifactInfo.artifact_id d = a"
  using assms
  by (auto simp: info_def other_fields_valid_def dict_item_def ArtifactInfo_model_validate_def
      split: option.splits)

text \<open>
  Claim C3, as amended.  For every raw record, fallback id and fallback session:
  a descriptor that \<^verbatim>\<open>_info\<close> returns has as \<^verbatim>\<open>artifact_id\<close> the value of the ordered chain
  (the raw \<^verbatim>\<open>artifact_id\<close> field, else the raw \<^verbatim>\<open>id\<close> field, else the last path segment of
  the raw \<^verbatim>\<open>key\<close> field, else the caller's \<^verbatim>\<open>fallback_id\<close>); and \<^verbatim>\<open>_info\<close> does return a
  descriptor with that identifier whenever the chain gives a non-empty string and the
  other fields are fit for a descriptor, unless the chain has to read a \<^verbatim>\<open>key\<close> that is a
  true value but not a string.  In that last case \<^verbatim>\<open>_info\<close> raises \<^verbatim>\<open>AttributeError\<close> and
  does not go on to the fallback.  When every source is empty or absent, \<^verbatim>\<open>_info\<close> raises
  \<^verbatim>\<open>KeyError("artifact_id")\<close>, the missing-identifier error, whatever the other fields are.
\<close>

theorem info_artifact_id_resolution:
  "(info intf m fb fs = Inr d \<longrightarrow> VStr (ArtifactInfo.artifact_id d) = spec_artifact_id m fb)
   \<and> (\<not> key_unreadable m \<and> spec_artifact_id m fb = VStr a \<and> a \<noteq> []
        \<and> other_fields_valid intf m fs
        \<longrightarrow> (\<exists>d. info intf m fb fs = Inr d \<and> ArtifactInfo.artifact_id d = a))
   \<and> (no_id_source m fb \<longrightarrow> info intf m fb fs = Inl (KeyError ''artifact_id''))
   \<and> (key_unreadable m \<longrightarrow> info intf m fb fs = Inl (AttributeError ''split''))"
proof (intro conjI impI)
  assume "info intf m fb fs = Inr d"
  then show "VStr (ArtifactInfo.artifact_id d) = spec_artifact_id m fb"
    using info_Inr_fields(1) info_art_id_spec by blast
next
  assume h: "\<not> key_unreadable m \<and> spec_artifact_id m fb = VStr a \<and> a \<noteq> []
        \<and> other_fields_valid intf m fs"
  then have "info_art_id m fb = Inr (VStr a)"
    using info_art_id_readable[of m fb] by simp
  then show "\<exists>d. info intf m fb fs = Inr d \<and> ArtifactInfo.artifact_id d = a"
    using h info_returns by blast
next
  assume "no_id_source m fb"
  then obtain v where "info_art_id m fb = Inr v" "\<not> truthy v"
    using no_id_source_art_id by blast
  then show "info intf m fb fs = Inl (KeyError ''artifact_id'')"
    by (simp add: info_def)
next
  assume "key_unreadable m"
  then show "info intf m fb fs = Inl (AttributeError ''split'')"
    by (rule info_key_unreadable)
qed

text \<open>
  A record with only a \<^verbatim>\<open>key\<close> gets the key's last segment, \<^verbatim>\<open>XYZ\<close>; the record of
  \<^verbatim>\<open>abc123\<close> is returned under its \<^verbatim>\<open>artifact_id\<close>, so the chain gives \<^verbatim>\<open>a1\<close>; a record
  with no identifier at all and an empty fallback is refused; a record whose key is the
  number 5 makes \<^verbatim>\<open>.split\<close> fail.
\<close>

theorem info_artifact_id_resolution_witness:
  "map_sum id ArtifactInfo.artifact_id (info int_only keyed_meta None VNone) = Inr ''XYZ''
   \<and> map_sum id ArtifactInfo.artifact_id (info int_only owned_meta None (VStr ''team42''))
       = Inr ''a1''
   \<and> spec_artifact_id owned_meta None = VStr ''a1''
   \<and> no_id_source anonymous_meta (Some [])
   \<and> info int_only anonymous_meta (Some []) (VStr ''team42'') = Inl (KeyError ''artifact_id'')
   \<and> key_unreadable numeric_key_meta
   \<and> info int_only numeric_key_meta None VNone = Inl (AttributeError ''split'')"
proof -
  have k: "\<not> key_unreadable keyed_meta \<and> spec_artifact_id keyed_meta None = VStr ''XYZ''
           \<and> ''XYZ'' \<noteq> [] \<and> other_fields_valid int_only keyed_meta VNone"
    by (simp add: key_unreadable_def spec_artifact_id_def key_segment_def last_path_segment_def
        other_fields_valid_def keyed_meta_def dict_get_def dict_get_default_def py_or_def
        int_only_def)
  have a: "map_sum id ArtifactInfo.artifact_id (info int_only keyed_meta None VNone) = Inr ''XYZ''"
    using info_artifact_id_resolution[THEN conjunct2, THEN conjunct1, rule_format, OF k]
    by auto
  have o: "spec_artifact_id owned_meta None = VStr ''a1''"
    using info_artifact_id_resolution[THEN conjunct1, rule_format, OF info_owned_meta]
    by simp
  have o': "map_sum id ArtifactInfo.artifact_id (info int_only owned_meta None (VStr ''team42''))
       = Inr ''a1''"
    by (simp add: info_owned_meta)
  have b: "no_id_source anonymous_meta (Some [])"
    by (simp add: no_id_source_def anonymous_meta_def dict_get_def)
  have c: "info int_only anonymous_meta (Some []) (VStr ''team42'') = Inl (KeyError ''artifact_id'')"
    using info_artifact_id_resolution[THEN conjunct2, THEN conjunct2, THEN conjunct1,
        rule_format, OF b] .
  have u: "key_unreadable numeric_key_meta"
    by (simp add: key_unreadable_def numeric_key_meta_def dict_get_def)
  have e: "info int_only numeric_key_meta None VNone = Inl (AttributeError ''split'')"
    using info_artifact_id_resolution[THEN conjunct2, THEN conjunct2, THEN conjunct2,
        rule_format, OF u] .
  show ?thesis using a o o' b c u e by simp
qed

text \<open>
  The claim as it was stated fails for a record whose \<^verbatim>\<open>key\<close> is the number 5, with no
  \<^verbatim>\<open>artifact_id\<close> and no \<^verbatim>\<open>id\<close>, and the fallback \<^verbatim>\<open>fb1\<close>: the chain of the claim gives
  \<^verbatim>\<open>fb1\<close>, the code raises \<^verbatim>\<open>AttributeError\<close>.
\<close>

theorem info_artifact_id_resolution_counterexample:
  "spec_artifact_id numeric_key_meta (Some ''fb1'') = VStr ''fb1''
   \<and> info int_only numeric_key_meta (Some ''fb1'') (VStr ''team42'')
       = Inl (AttributeError ''split'')"
  by (simp add: spec_artifact_id_def key_segment_def numeric_key_meta_def dict_get_def
      info_def info_art_id_def py_or_def)

text \<open>
  Claim C5.  When \<^verbatim>\<open>_info\<close> is given the fallback session \<open>S\<close> and returns a descriptor:
  if the raw record has no \<^verbatim>\<open>session_id\<close>, or an empty one, the descriptor's
  \<^verbatim>\<open>session_id\<close> is \<open>S\<close>; if the raw record carries a non-empty \<^verbatim>\<open>session_id\<close>, the
  descriptor keeps that raw value and the fallback is not used.
\<close>

theorem info_session_fallback:
  assumes "info intf m fb (of_opt_str S) = Inr d"
  shows "(\<not> truthy (dict_get m ''session_id'') \<longrightarrow> ArtifactInfo.session_id d = S)
       \<and> (truthy (dict_get m ''session_id'')
            \<longrightarrow> dict_get m ''session_id'' = of_opt_str (ArtifactInfo.session_id d))"
proof -
  have f: "opt_str_field (py_or (dict_get m ''session_id'') (of_opt_str S))
             = Some (ArtifactInfo.session_id d)"
    using assms by (rule info_Inr_fields(2))
  show ?thesis
  proof (intro conjI impI)
    assume "\<not> truthy (dict_get m ''session_id'')"
    with f show "ArtifactInfo.session_id d = S"
      by (cases S) (simp_all add: py_or_def)
  next
    assume "truthy (dict_get m ''session_id'')"
    with f show "dict_get m ''session_id'' = of_opt_str (ArtifactInfo.session_id d)"
      by (cases "dict_get m ''session_id''"; cases "ArtifactInfo.session_id d")
        (simp_all add: py_or_def)
  qed
qed

text \<open>A legacy record (\<^verbatim>\<open>session_id\<close> is \<^verbatim>\<open>None\<close>) gets the fallback \<^verbatim>\<open>team42\<close>; a record
  owned by \<^verbatim>\<open>abc123\<close> keeps its owner.\<close>

theorem info_session_fallback_witness:
  "\<not> truthy (dict_get legacy_meta ''session_id'')
   \<and> map_sum id ArtifactInfo.session_id
        (info int_only legacy_meta None (VStr ''team42'')) = Inr (Some ''team42'')
   \<and> truthy (dict_get owned_meta ''session_id'')
   \<and> map_sum id ArtifactInfo.session_id
        (info int_only owned_meta None (VStr ''team42'')) = Inr (Some ''abc123'')"
proof -
  have a: "\<not> truthy (dict_get legacy_meta ''session_id'')"
    by (simp add: legacy_meta_def dict_get_def)
  have b: "truthy (dict_get owned_meta ''session_id'')"
    by (simp add: owned_meta_def dict_get_def)
  note l = info_session_fallback[of int_only legacy_meta None "Some ''team42''",
      unfolded of_opt_str.simps, OF info_legacy_meta, THEN conjunct1, rule_format, OF a]
  note r = info_session_fallback[of int_only owned_meta None "Some ''team42''",
      unfolded of_opt_str.simps, OF info_owned_meta, THEN conjunct2, rule_format, OF b]
  have c: "map_sum id ArtifactInfo.session_id
        (info int_only legacy_meta None (VStr ''team42'')) = Inr (Some ''team42'')"
    using l by (simp add: info_legacy_meta)
  have d: "map_sum id ArtifactInfo.session_id
        (info int_only owned_meta None (VStr ''team42'')) = Inr (Some ''abc123'')"
    using r by (simp add: info_owned_meta)
  show ?thesis using a b c d by simp
qed

section \<open>Example payloads\<close>

lemma encode_dummy: "encode_bytes ''dummy'' = [100, 117, 109, 109, 121]"
  by (simp add: encode_bytes_def)

lemma b64encode_dummy: "b64encode (encode_bytes ''dummy'') = ''ZHVtbXk=''"
  by (simp add: encode_bytes_def b64_group_def b64_char_def b64_alphabet_def)

lemma length_dummy: "length (encode_bytes ''dummy'') = 5"
  by (simp add: encode_bytes_def)

section \<open>The delivery selector\<close>

text \<open>
  Claim C4.  Whenever \<^verbatim>\<open>_presign_or_inline\<close> returns a result, exactly one of
  \<^verbatim>\<open>download_url\<close> and \<^verbatim>\<open>data_base64\<close> is \<^verbatim>\<open>None\<close>.  When presigning is requested and
  \<^verbatim>\<open>presign_medium\<close> raises, the exception only goes to the log: the call continues with
  the inline retrieval, so its result has no URL and carries the base64 text of the
  payload, and the only error it can still raise is the one of \<^verbatim>\<open>retrieve\<close>.
\<close>

theorem presign_or_inline_exactly_one:
  "(presign_or_inline env a p w = (Inr (url, data), w') \<longrightarrow> (url = None) \<noteq> (data = None))
   \<and> (STORE_presign_medium env a w = (Inl exc, w1) \<longrightarrow>
        presign_or_inline env a True w =
          (case STORE_retrieve env a
                  (log_line (Log_info ''Presign unavailable - falling back to inline'' exc) w1) of
             (Inl e, w2) \<Rightarrow> (Inl e, w2)
           | (Inr payload, w2) \<Rightarrow> (Inr (None, Some (b64encode payload)), w2)))"
proof (intro conjI impI)
  assume r: "presign_or_inline env a p w = (Inr (url, data), w')"
  have inline: "url = None \<and> data \<noteq> None"
    if "(case STORE_retrieve env a w0 of
           (Inl e, w2) \<Rightarrow> (Inl e, w2)
         | (Inr payload, w2) \<Rightarrow> (Inr (None, Some (b64encode payload)), w2))
        = (Inr (url, data), w')" for w0
    using that by (auto split: prod.splits sum.splits)
  show "(url = None) \<noteq> (data = None)"
  proof (cases p)
    case False
    then show ?thesis
      using r inline[of w] by (simp add: presign_or_inline_def)
  next
    case True
    obtain x wp where pm: "STORE_presign_medium env a w = (x, wp)"
      by (cases "STORE_presign_medium env a w")
    show ?thesis
    proof (cases x)
      case (Inr link)
      then show ?thesis
        using r True pm by (auto simp: presign_or_inline_def)
    next
      case (Inl exc)
      then show ?thesis
        using r True pm
          inline[of "log_line (Log_info ''Presign unavailable - falling back to inline'' exc) wp"]
        by (simp add: presign_or_inline_def)
    qed
  qed
next
  assume "STORE_presign_medium env a w = (Inl exc, w1)"
  then show "presign_or_inline env a True w =
          (case STORE_retrieve env a
                  (log_line (Log_info ''Presign unavailable - falling back to inline'' exc) w1) of
             (Inl e, w2) \<Rightarrow> (Inl e, w2)
           | (Inr payload, w2) \<Rightarrow> (Inr (None, Some (b64encode payload)), w2))"
    by (simp add: presign_or_inline_def)
qed

theorem presign_or_inline_exactly_one_witness:
  "STORE_presign_medium no_presign_store ''legacy1'' (start legacy_state) =
     (Inl (Exception ''presign unsupported''),
      \<lparr>backend = legacy_state, calls = [Call_presign_medium ''legacy1''], logged = []\<rparr>)
   \<and> presign_or_inline no_presign_store ''legacy1'' True (start legacy_state) =
     (Inr (None, Some ''ZHVtbXk=''),
      \<lparr>backend = legacy_state,
       calls = [Call_presign_medium ''legacy1'', Call_retrieve ''legacy1''],
       logged = [Log_info ''Presign unavailable - falling back to inline''
                   (Exception ''presign unsupported'')]\<rparr>)
   \<and> ((None :: string option) = None) \<noteq> (Some ''ZHVtbXk='' = None)"
proof -
  have a: "STORE_presign_medium no_presign_store ''legacy1'' (start legacy_state) =
     (Inl (Exception ''presign unsupported''),
      \<lparr>backend = legacy_state, calls = [Call_presign_medium ''legacy1''], logged = []\<rparr>)"
    by (simp add: STORE_presign_medium_def invoke_def no_presign_store_def FakeStore_def start_def)
  have b: "presign_or_inline no_presign_store ''legacy1'' True (start legacy_state) =
     (Inr (None, Some ''ZHVtbXk=''),
      \<lparr>backend = legacy_state,
       calls = [Call_presign_medium ''legacy1'', Call_retrieve ''legacy1''],
       logged = [Log_info ''Presign unavailable - falling back to inline''
                   (Exception ''presign unsupported'')]\<rparr>)"
    using presign_or_inline_exactly_one[THEN conjunct2, rule_format, OF a]
    by (simp add: STORE_retrieve_def invoke_def log_line_def no_presign_store_def FakeStore_def
        b64encode_dummy)
  show ?thesis
    using a b presign_or_inline_exactly_one[THEN conjunct1, rule_format, OF b] by simp
qed

section \<open>Deleting\<close>

text \<open>
  Claim C6.  When the store reports that there was nothing to delete (its \<^verbatim>\<open>delete\<close>
  returns \<^verbatim>\<open>False\<close>), \<^verbatim>\<open>delete_file\<close> raises nothing: it returns \<^verbatim>\<open>success = False\<close>
  with the requested id, after that one call on the store.
\<close>

theorem delete_file_nothing_to_delete:
  assumes "be_delete env a (backend w) = (Inr False, s')"
  shows "delete_file env a w =
           (Inr \<lparr>success = False, DeleteFileResult.artifact_id = a\<rparr>,
            w\<lparr>backend := s', calls := calls w @ [Call_delete a]\<rparr>)"
  using assms by (simp add: delete_file_def STORE_delete_def invoke_def)

text \<open>In the in-memory store, \<^verbatim>\<open>legacy1\<close> is deleted once with success; deleting it again
  finds nothing and still returns a result.\<close>

theorem delete_file_nothing_to_delete_witness:
  "delete_file FakeStore ''legacy1'' (start legacy_state) =
     (Inr \<lparr>success = True, DeleteFileResult.artifact_id = ''legacy1''\<rparr>,
      \<lparr>backend = \<lparr>objects = [], issued = 0\<rparr>, calls = [Call_delete ''legacy1''], logged = []\<rparr>)
   \<and> be_delete FakeStore ''legacy1'' \<lparr>objects = [], issued = 0\<rparr> =
        (Inr False, \<lparr>objects = [], issued = 0\<rparr>)
   \<and> delete_file FakeStore ''legacy1''
        \<lparr>backend = \<lparr>objects = [], issued = 0\<rparr>, calls = [Call_delete ''legacy1''], logged = []\<rparr> =
     (Inr \<lparr>success = False, DeleteFileResult.artifact_id = ''legacy1''\<rparr>,
      \<lparr>backend = \<lparr>objects = [], issued = 0\<rparr>,
       calls = [Call_delete ''legacy1'', Call_delete ''legacy1''], logged = []\<rparr>)"
proof -
  have a: "delete_file FakeStore ''legacy1'' (start legacy_state) =
     (Inr \<lparr>success = True, DeleteFileResult.artifact_id = ''legacy1''\<rparr>,
      \<lparr>backend = \<lparr>objects = [], issued = 0\<rparr>, calls = [Call_delete ''legacy1''], logged = []\<rparr>)"
    by (simp add: delete_file_def STORE_delete_def invoke_def FakeStore_def fake_delete_def
        start_def legacy_state_def)
  have b: "be_delete FakeStore ''legacy1''
             (backend \<lparr>backend = \<lparr>objects = [], issued = 0\<rparr>,
                       calls = [Call_delete ''legacy1''], logged = []\<rparr>) =
        (Inr False, \<lparr>objects = [], issued = 0\<rparr>)"
    by (simp add: FakeStore_def fake_delete_def)
  show ?thesis
    using a b delete_file_nothing_to_delete[OF b] by simp
qed

section \<open>Reading\<close>

text \<open>
  Claim C10.  A \<^verbatim>\<open>read_file\<close> call with \<^verbatim>\<open>as_text=False\<close> that returns a result returns
  \<^verbatim>\<open>content_type = "binary"\<close>, no \<^verbatim>\<open>content\<close> and no \<^verbatim>\<open>encoding\<close>, the base64 text of
  the payload the store returned, and the payload's length as \<^verbatim>\<open>bytes\<close>; decoding
  \<^verbatim>\<open>content_base64\<close> gives the payload back, hence exactly \<^verbatim>\<open>bytes\<close> bytes.  With
  \<^verbatim>\<open>as_text=True\<close> the result has \<^verbatim>\<open>content\<close> and \<^verbatim>\<open>encoding\<close> set, and neither
  \<^verbatim>\<open>content_base64\<close> nor \<^verbatim>\<open>bytes\<close>.
\<close>

theorem read_file_result_shape:
  "(read_file env a False enc w = (Inr r, w') \<longrightarrow>
      (\<exists>payload. STORE_read_bytes env a enc w = (Inr payload, w')
         \<and> content_type r = ''binary'' \<and> content r = None \<and> encoding r = None
         \<and> content_base64 r = Some (b64encode payload)
         \<and> ReadFileResult.bytes r = Some (int (length payload))
         \<and> Option.bind (content_base64 r) b64decode = Some payload
         \<and> map_option (\<lambda>bs. int (length bs)) (Option.bind (content_base64 r) b64decode)
             = ReadFileResult.bytes r))
   \<and> (read_file env a True enc w = (Inr r, w') \<longrightarrow>
      (\<exists>body. STORE_read_text env a enc w = (Inr body, w')
         \<and> content_type r = ''text'' \<and> content r = Some body \<and> encoding r = Some enc
         \<and> content_base64 r = None \<and> ReadFileResult.bytes r = None))"
proof (intro conjI impI)
  assume r: "read_file env a False enc w = (Inr r, w')"
  obtain x w1 where s: "STORE_read_bytes env a enc w = (x, w1)"
    by (cases "STORE_read_bytes env a enc w")
  then obtain payload where x: "x = Inr payload" and w1: "w1 = w'"
    and res: "r = \<lparr>ReadFileResult.artifact_id = a, content_type = ''binary'',
                 content = None, content_base64 = Some (b64encode payload),
                 encoding = None, ReadFileResult.bytes = Some (int (length payload))\<rparr>"
    using r by (cases x) (auto simp: read_file_def)
  have dec: "Option.bind (content_base64 r) b64decode = Some payload"
    unfolding res by (simp add: b64decode_b64encode)
  show "\<exists>payload. STORE_read_bytes env a enc w = (Inr payload, w')
         \<and> content_type r = ''binary'' \<and> content r = None \<and> encoding r = None
         \<and> content_base64 r = Some (b64encode payload)
         \<and> ReadFileResult.bytes r = Some (int (length payload))
         \<and> Option.bind (content_base64 r) b64decode = Some payload
         \<and> map_option (\<lambda>bs. int (length bs)) (Option.bind (content_base64 r) b64decode)
             = ReadFileResult.bytes r"
    using s x w1 dec by (intro exI[of _ payload]) (simp add: res)
next
  assume r: "read_file env a True enc w = (Inr r, w')"
  obtain x w1 where s: "STORE_read_text env a enc w = (x, w1)"
    by (cases "STORE_read_text env a enc w")
  then obtain body where x: "x = Inr body" and w1: "w1 = w'"
    and res: "r = \<lparr>ReadFileResult.artifact_id = a, content_type = ''text'',
                 content = Some body, content_base64 = None,
                 encoding = Some enc, ReadFileResult.bytes = None\<rparr>"
    using r by (cases x) (auto simp: read_file_def)
  show "\<exists>body. STORE_read_text env a enc w = (Inr body, w')
         \<and> content_type r = ''text'' \<and> content r = Some body \<and> encoding r = Some enc
         \<and> content_base64 r = None \<and> ReadFileResult.bytes r = None"
    using s x w1 by (intro exI[of _ body]) (simp add: res)
qed

theorem read_file_result_shape_witness:
  "read_file readable_store ''legacy1'' False ''utf-8'' (start legacy_state) =
     (Inr \<lparr>ReadFileResult.artifact_id = ''legacy1'', content_type = ''binary'',
           content = None, content_base64 = Some ''ZHVtbXk='', encoding = None,
           ReadFileResult.bytes = Some 5\<rparr>,
      \<lparr>backend = legacy_state, calls = [Call_read_file ''legacy1'' False ''utf-8''],
       logged = []\<rparr>)
   \<and> b64decode ''ZHVtbXk='' = Some [100, 117, 109, 109, 121]
   \<and> read_file readable_store ''legacy1'' True ''utf-8'' (start legacy_state) =
     (Inr \<lparr>ReadFileResult.artifact_id = ''legacy1'', content_type = ''text'',
           content = Some ''dummy'', content_base64 = None, encoding = Some ''utf-8'',
           ReadFileResult.bytes = None\<rparr>,
      \<lparr>backend = legacy_state, calls = [Call_read_file ''legacy1'' True ''utf-8''],
       logged = []\<rparr>)"
proof -
  have a: "read_file readable_store ''legacy1'' False ''utf-8'' (start legacy_state) =
     (Inr \<lparr>ReadFileResult.artifact_id = ''legacy1'', content_type = ''binary'',
           content = None, content_base64 = Some ''ZHVtbXk='', encoding = None,
           ReadFileResult.bytes = Some 5\<rparr>,
      \<lparr>backend = legacy_state, calls = [Call_read_file ''legacy1'' False ''utf-8''],
       logged = []\<rparr>)"
    by (simp add: read_file_def STORE_read_bytes_def invoke_def readable_store_def FakeStore_def
        start_def b64encode_dummy length_dummy)
  have b: "read_file readable_store ''legacy1'' True ''utf-8'' (start legacy_state) =
     (Inr \<lparr>ReadFileResult.artifact_id = ''legacy1'', content_type = ''text'',
           content = Some ''dummy'', content_base64 = None, encoding = Some ''utf-8'',
           ReadFileResult.bytes = None\<rparr>,
      \<lparr>backend = legacy_state, calls = [Call_read_file ''legacy1'' True ''utf-8''],
       logged = []\<rparr>)"
    by (simp add: read_file_def STORE_read_text_def invoke_def readable_store_def FakeStore_def
        start_def)
  obtain payload where p: "STORE_read_bytes readable_store ''legacy1'' ''utf-8'' (start legacy_state)
        = (Inr payload, \<lparr>backend = legacy_state,
             calls = [Call_read_file ''legacy1'' False ''utf-8''], logged = []\<rparr>)"
    and d: "Option.bind (Some ''ZHVtbXk='') b64decode = Some payload"
    using read_file_result_shape[THEN conjunct1, rule_format, OF a] by auto
  have "payload = [100, 117, 109, 109, 121]"
    using p by (simp add: STORE_read_bytes_def invoke_def readable_store_def FakeStore_def
        start_def encode_dummy)
  then have c: "b64decode ''ZHVtbXk='' = Some [100, 117, 109, 109, 121]"
    using d by simp
  obtain body where "content \<lparr>ReadFileResult.artifact_id = ''legacy1'', content_type = ''text'',
           content = Some ''dummy'', content_base64 = None, encoding = Some ''utf-8'',
           ReadFileResult.bytes = None\<rparr> = Some body"
    using read_file_result_shape[THEN conjunct2, rule_format, OF b] by auto
  show ?thesis using a b c by simp
qed

section \<open>\<^verbatim>\<open>write_file\<close>: the calls it makes\<close>

lemma new_calls_append:
  assumes "calls w' = calls w @ xs"
  shows "new_calls w w' = xs"
  using assms by (simp add: new_calls_def)

lemma write_file_attempt_calls:
  assumes "write_file_attempt env inp w = (r, w1)"
  shows "calls w1 = calls w @ [Call_write_file inp]
       \<or> (\<exists>a. calls w1 = calls w @ [Call_write_file inp, Call_metadata a])"
  using assms
  by (auto simp: write_file_attempt_def STORE_write_file_def STORE_metadata_def invoke_def
      split: prod.splits sum.splits)

lemma store_and_build_info_calls:
  assumes "store_and_build_info env data fname mt summ sess m w = (r, w1)"
  shows "\<exists>rest. calls w1 =
           calls w @ Call_store \<lparr>sa_data = data, sa_mime = mt, sa_summary = summ,
                                 sa_filename = fname, sa_session_id = sess, sa_meta = m\<rparr> # rest"
  using assms
  by (auto simp: store_and_build_info_def STORE_store_def STORE_metadata_def invoke_def
      split: prod.splits sum.splits)

lemma write_file_result_calls:
  assumes "write_file_result env ov r w = (x, w1)"
  shows "calls w1 = calls w @ [Call_presign_short (fst r)]" and "\<exists>res. x = Inr res"
  using assms
  by (auto simp: write_file_result_def STORE_presign_short_def invoke_def
      split: prod.splits sum.splits)

lemma write_file_result_fields:
  assumes "write_file_result env ov (a, i) w = (Inr r, w1)"
  shows "WriteFileResult.operation r = (if ov = None \<or> ov = Some [] then ''create'' else ''overwrite'')"
    and "ArtifactInfo.session_id r = ArtifactInfo.session_id i"
    and "ArtifactInfo.artifact_id r = ArtifactInfo.artifact_id i"
  using assms
  by (cases ov; auto simp: write_file_result_def ArtifactInfo.defs WriteFileResult.defs
      split: prod.splits)+

lemma write_file_fallback_calls:
  assumes "write_file_fallback env inp old_id w = (r, w1)"
  shows "\<exists>rest. calls w1 = calls w @ Call_delete old_id # rest"
proof -
  obtain d wd where d: "STORE_delete env old_id w = (d, wd)"
    by (cases "STORE_delete env old_id w")
  then have c: "calls wd = calls w @ [Call_delete old_id]"
    by (auto simp: STORE_delete_def invoke_def split: prod.splits)
  show ?thesis
  proof (cases "str_encode env (wa_content inp) (wa_encoding inp)")
    case (Inl e)
    then show ?thesis using assms d c
      by (auto simp: write_file_fallback_def log_line_def split: sum.splits)
  next
    case (Inr data)
    then show ?thesis using assms d c
      by (auto simp: write_file_fallback_def log_line_def split: sum.splits
          dest!: store_and_build_info_calls)
  qed
qed

lemma write_file_resolved:
  assumes "validate_session_parameter env sid ''write_file'' = Inr sess"
  shows "write_file env text fname sid mt summ m enc ov w =
     (case write_file_attempt env (write_input text fname sess mt summ m enc ov) w of
        (Inr r, w1) \<Rightarrow> write_file_result env ov r w1
      | (Inl e, w1) \<Rightarrow>
          (case ov of
             Some old_id \<Rightarrow>
               if legacy_conflict e \<and> old_id \<noteq> []
               then (case write_file_fallback env
                            (write_input text fname sess mt summ m enc ov) old_id w1 of
                       (Inl e', w2) \<Rightarrow> (Inl e', w2)
                     | (Inr r, w2) \<Rightarrow> write_file_result env ov r w2)
               else (Inl (surfaced e), w1)
           | None \<Rightarrow> (Inl (surfaced e), w1)))"
  using assms
  by (auto simp: write_file_def resolve_session_def Let_def legacy_conflict_def surfaced_def
      split: prod.splits sum.splits exn.splits option.splits)

lemma write_file_unresolved:
  assumes "validate_session_parameter env sid ''write_file'' = Inl x"
  shows "snd (write_file env text fname sid mt summ m enc ov w) = w"
  using assms
  by (auto simp: write_file_def resolve_session_def split: exn.splits)

lemma write_file_Inr_session:
  assumes "write_file env text fname sid mt summ m enc ov w = (Inr r, w')"
  shows "\<exists>sess. validate_session_parameter env sid ''write_file'' = Inr sess"
  using assms
  by (auto simp: write_file_def resolve_session_def split: sum.splits exn.splits)

text \<open>The three ways a run of \<^verbatim>\<open>write_file\<close> with a resolved session can go, each with the
  calls it adds to those of the overwrite stage.\<close>

lemma write_file_direct:
  assumes "validate_session_parameter env sid ''write_file'' = Inr sess"
    and "write_file_attempt env (write_input text fname sess mt summ m enc ov) w = (Inr r, w1)"
  shows "write_file env text fname sid mt summ m enc ov w = write_file_result env ov r w1"
    and "new_calls w1 (snd (write_file env text fname sid mt summ m enc ov w))
           = [Call_presign_short (fst r)]"
proof -
  show eq: "write_file env text fname sid mt summ m enc ov w = write_file_result env ov r w1"
    using assms(2) by (simp add: write_file_resolved[OF assms(1)])
  obtain y w2 where g: "write_file_result env ov r w1 = (y, w2)"
    by (cases "write_file_result env ov r w1")
  then have "calls w2 = calls w1 @ [Call_presign_short (fst r)]"
    by (rule write_file_result_calls(1))
  then show "new_calls w1 (snd (write_file env text fname sid mt summ m enc ov w))
           = [Call_presign_short (fst r)]"
    using eq g by (simp add: new_calls_append)
qed

lemma write_file_recovers:
  assumes "validate_session_parameter env sid ''write_file'' = Inr sess"
    and "write_file_attempt env (write_input text fname sess mt summ m enc ov) w = (Inl e, w1)"
    and "legacy_conflict e" and "ov = Some old_id" and "old_id \<noteq> []"
  shows "write_file env text fname sid mt summ m enc ov w =
              (case write_file_fallback env
                      (write_input text fname sess mt summ m enc ov) old_id w1 of
                 (Inl e', w2) \<Rightarrow> (Inl e', w2)
               | (Inr r, w2) \<Rightarrow> write_file_result env ov r w2)"
    and "\<exists>rest. new_calls w1 (snd (write_file env text fname sid mt summ m enc ov w))
                  = Call_delete old_id # rest"
proof -
  let ?inp = "write_input text fname sess mt summ m enc ov"
  show eq: "write_file env text fname sid mt summ m enc ov w =
              (case write_file_fallback env ?inp old_id w1 of
                 (Inl e', w2) \<Rightarrow> (Inl e', w2)
               | (Inr r, w2) \<Rightarrow> write_file_result env ov r w2)"
    using assms(2-5)
    by (auto simp: write_file_resolved[OF assms(1)] split: prod.splits sum.splits)
  obtain x w2 where f: "write_file_fallback env ?inp old_id w1 = (x, w2)"
    by (cases "write_file_fallback env ?inp old_id w1")
  then obtain rest where r: "calls w2 = calls w1 @ Call_delete old_id # rest"
    using write_file_fallback_calls by blast
  show "\<exists>rest. new_calls w1 (snd (write_file env text fname sid mt summ m enc ov w))
                  = Call_delete old_id # rest"
  proof (cases x)
    case (Inl e')
    then show ?thesis using eq f r by (simp add: new_calls_append)
  next
    case (Inr res)
    obtain y w3 where g: "write_file_result env ov res w2 = (y, w3)"
      by (cases "write_file_result env ov res w2")
    then have "calls w3 = calls w2 @ [Call_presign_short (fst res)]"
      by (rule write_file_result_calls(1))
    then have "calls w3 = calls w1 @ Call_delete old_id # rest @ [Call_presign_short (fst res)]"
      using r by simp
    then show ?thesis using eq f g Inr by (simp add: new_calls_append)
  qed
qed

lemma write_file_surfaces:
  assumes "validate_session_parameter env sid ''write_file'' = Inr sess"
    and "write_file_attempt env (write_input text fname sess mt summ m enc ov) w = (Inl e, w1)"
    and "\<not> (legacy_conflict e \<and> ov \<noteq> None \<and> ov \<noteq> Some [])"
  shows "write_file env text fname sid mt summ m enc ov w = (Inl (surfaced e), w1)"
  using assms(2,3) by (cases ov) (auto simp: write_file_resolved[OF assms(1)])

section \<open>\<^verbatim>\<open>write_file\<close>: when the overwrite recovery starts\<close>

lemma recovery_iff:
  "list_ex recovery_call (new_calls w (snd (write_file env text fname sid mt summ m enc ov w)))
     \<longleftrightarrow> (\<exists>sess e w1 old_id. validate_session_parameter env sid ''write_file'' = Inr sess
             \<and> write_file_attempt env (write_input text fname sess mt summ m enc ov) w = (Inl e, w1)
             \<and> legacy_conflict e \<and> ov = Some old_id \<and> old_id \<noteq> [])"
proof (cases "validate_session_parameter env sid ''write_file''")
  case (Inl x)
  then show ?thesis
    by (simp add: write_file_unresolved[OF Inl] new_calls_def)
next
  case (Inr sess)
  let ?inp = "write_input text fname sess mt summ m enc ov"
  let ?fin = "snd (write_file env text fname sid mt summ m enc ov w)"
  obtain x w1 where att: "write_file_attempt env ?inp w = (x, w1)"
    by (cases "write_file_attempt env ?inp w")
  obtain pre where pre: "calls w1 = calls w @ pre" and npre: "\<not> list_ex recovery_call pre"
    using write_file_attempt_calls[OF att] by auto
  show ?thesis
  proof (cases x)
    case r: (Inr r)
    have "new_calls w1 ?fin = [Call_presign_short (fst r)]"
      using write_file_direct(2)[OF Inr] att r by simp
    then have "calls ?fin = calls w @ pre @ [Call_presign_short (fst r)]"
      using write_file_direct(1)[OF Inr] att r pre
      by (metis append.assoc prod.collapse write_file_result_calls(1))
    then have "new_calls w ?fin = pre @ [Call_presign_short (fst r)]"
      by (rule new_calls_append)
    then show ?thesis using npre att r Inr by auto
  next
    case e: (Inl e)
    show ?thesis
    proof (cases "legacy_conflict e \<and> ov \<noteq> None \<and> ov \<noteq> Some []")
      case True
      then obtain old_id where ov: "ov = Some old_id" "old_id \<noteq> []" by (cases ov) auto
      note eq = write_file_recovers(1)[OF Inr att[unfolded e] conjunct1[OF True] ov]
      obtain y w2 where f: "write_file_fallback env ?inp old_id w1 = (y, w2)"
        by (cases "write_file_fallback env ?inp old_id w1")
      then obtain rest where rest: "calls w2 = calls w1 @ Call_delete old_id # rest"
        using write_file_fallback_calls by blast
      have "\<exists>more. calls ?fin = calls w @ pre @ Call_delete old_id # more"
      proof (cases y)
        case (Inl e')
        then show ?thesis using eq f rest pre by simp
      next
        case (Inr res)
        obtain z w3 where g: "write_file_result env ov res w2 = (z, w3)"
          by (cases "write_file_result env ov res w2")
        then have "calls w3 = calls w2 @ [Call_presign_short (fst res)]"
          by (rule write_file_result_calls(1))
        then show ?thesis using eq f rest pre g Inr by simp
      qed
      then obtain more where "calls ?fin = calls w @ (pre @ Call_delete old_id # more)" by auto
      then have "new_calls w ?fin = pre @ Call_delete old_id # more"
        by (rule new_calls_append)
      then have "list_ex recovery_call (new_calls w ?fin)" by simp
      then show ?thesis using Inr att e True ov by auto
    next
      case False
      have "write_file env text fname sid mt summ m enc ov w = (Inl (surfaced e), w1)"
        using write_file_surfaces[OF Inr att[unfolded e] False] .
      then have "new_calls w ?fin = pre" using pre by (simp add: new_calls_append)
      then show ?thesis using npre False Inr att e by auto
    qed
  qed
qed


section \<open>Runs of \<^verbatim>\<open>write_file\<close> on the in-memory stores\<close>

lemma length_encode_bytes: "length (encode_bytes s) = length s"
  by (simp add: encode_bytes_def)

lemma legacy_conflict_message:
  "legacy_conflict (ProviderError (cross_session_message a ''None'' s))"
proof -
  have p: "\<And>xs ys. str_contains xs (xs @ ys)"
    subgoal for xs ys by (cases xs; cases ys) simp_all
    done
  have q: "\<And>xs pre post. str_contains xs (pre @ xs @ post)"
    subgoal for xs pre post
      by (induction pre) (use p in auto)
    done
  have 1: "str_contains cross_session_text (cross_session_message a ''None'' s)"
    unfolding cross_session_text_def cross_session_message_def
    using p[of "''Cross-session overwrite not permitted''"] by simp
  have "cross_session_message a ''None'' s =
          (''Cross-session overwrite not permitted. Artifact '' @ a @ '' '')
          @ session_none_text
          @ ('', cannot overwrite from session '' @ [CHR 0x27] @ s @ [CHR 0x27] @ ''.'')"
    by (simp add: cross_session_message_def session_none_text_def)
  then have 2: "str_contains session_none_text (cross_session_message a ''None'' s)"
    using q by metis
  show ?thesis using 1 2 by (simp add: legacy_conflict_def)
qed

lemma session_resolved:
  "validate_session_parameter StrictStore (Some ''team42'') tool = Inr ''team42''"
  "validate_session_parameter StrictStore_no_delete (Some ''team42'') tool = Inr ''team42''"
  "validate_session_parameter StrictStore_utf8 (Some ''team42'') tool = Inr ''team42''"
  "validate_session_parameter FakeStore (Some ''team42'') tool = Inr ''team42''"
  "validate_session_parameter InPlaceStore (Some ''team42'') tool = Inr ''team42''"
  by (simp_all add: StrictStore_def StrictStore_no_delete_def StrictStore_utf8_def
      InPlaceStore_def FakeStore_def)

lemma strict_attempt_legacy:
  "write_file_attempt StrictStore new_doc_input (start legacy_state) =
     (Inl (ProviderError (cross_session_message ''legacy1'' ''None'' ''team42'')),
      \<lparr>backend = legacy_state, calls = [Call_write_file new_doc_input], logged = []\<rparr>)"
  by (simp add: write_file_attempt_def STORE_write_file_def invoke_def StrictStore_def
      FakeStore_def strict_write_file_def new_doc_input_def write_input_def start_def
      legacy_state_def Let_def)

lemma fake_store_new_doc:
  "fake_store new_doc_args \<lparr>objects = [], issued = 0\<rparr> = (Inr ''uuid'', new_doc_state)"
  by (simp add: fake_store_def new_doc_args_def new_doc_state_def fresh_id_def
      length_encode_bytes Let_def)

lemma fake_metadata_new_doc:
  "fake_metadata ''uuid'' new_doc_state =
     (Inr (map_of (the (map_of (objects new_doc_state) ''uuid''))), new_doc_state)"
  by (simp add: fake_metadata_def new_doc_state_def)

lemma info_new_doc:
  "info int_only (map_of (the (map_of (objects new_doc_state) ''uuid''))) (Some ''uuid'')
      (VStr ''team42'') = Inr new_doc_info"
  by (simp add: info_def info_art_id_def new_doc_state_def dict_get_def dict_item_def
      dict_get_default_def py_or_def ArtifactInfo_model_validate_def int_only_def
      new_doc_info_def)

lemma store_and_build_new_doc:
  assumes "be_store env = fake_store" "be_metadata env = fake_metadata" "int_field env = int_only"
  shows "store_and_build_info env (encode_bytes ''new content'') ''doc.txt'' ''text/plain''
           ''overwrite'' ''team42'' []
           \<lparr>backend = \<lparr>objects = [], issued = 0\<rparr>, calls = cs, logged = ls\<rparr> =
         (Inr (''uuid'', new_doc_info),
          \<lparr>backend = new_doc_state,
           calls = cs @ [Call_store new_doc_args, Call_metadata ''uuid''], logged = ls\<rparr>)"
  using fake_store_new_doc
  by (simp add: store_and_build_info_def STORE_store_def STORE_metadata_def invoke_def assms
      new_doc_args_def[symmetric] fake_metadata_new_doc info_new_doc)

lemma write_file_result_new_doc:
  assumes "be_presign_short env = (\<lambda>a s. (Inr (''https://example/'' @ a), s))"
  shows "write_file_result env ov (''uuid'', new_doc_info)
           \<lparr>backend = st, calls = cs, logged = ls\<rparr> =
         (Inr (new_doc_result (if ov = None \<or> ov = Some [] then ''create'' else ''overwrite'')),
          \<lparr>backend = st, calls = cs @ [Call_presign_short ''uuid''], logged = ls\<rparr>)"
  by (cases ov) (simp_all add: write_file_result_def STORE_presign_short_def invoke_def assms
      new_doc_result_def)

lemma strict_fallback_legacy:
  "write_file_fallback StrictStore new_doc_input ''legacy1''
     \<lparr>backend = legacy_state, calls = [Call_write_file new_doc_input], logged = []\<rparr> =
   (Inr (''uuid'', new_doc_info),
    \<lparr>backend = new_doc_state,
     calls = [Call_write_file new_doc_input, Call_delete ''legacy1'', Call_store new_doc_args,
              Call_metadata ''uuid''],
     logged = []\<rparr>)"
proof -
  have d: "STORE_delete StrictStore ''legacy1''
             \<lparr>backend = legacy_state, calls = [Call_write_file new_doc_input], logged = []\<rparr> =
           (Inr True, \<lparr>backend = \<lparr>objects = [], issued = 0\<rparr>,
                       calls = [Call_write_file new_doc_input, Call_delete ''legacy1''],
                       logged = []\<rparr>)"
    by (simp add: STORE_delete_def invoke_def StrictStore_def FakeStore_def fake_delete_def
        legacy_state_def)
  have e: "str_encode StrictStore (wa_content new_doc_input) (wa_encoding new_doc_input) =
           Inr (encode_bytes ''new content'')"
    by (simp add: StrictStore_def FakeStore_def new_doc_input_def write_input_def)
  have f: "wa_filename new_doc_input = ''doc.txt''" "wa_mime new_doc_input = ''text/plain''"
    "wa_summary new_doc_input = ''overwrite''" "wa_session_id new_doc_input = ''team42''"
    "wa_meta new_doc_input = []"
    by (simp_all add: new_doc_input_def write_input_def)
  have s: "be_store StrictStore = fake_store" "be_metadata StrictStore = fake_metadata"
    "int_field StrictStore = int_only"
    by (simp_all add: StrictStore_def FakeStore_def)
  show ?thesis
    by (simp add: write_file_fallback_def d e f store_and_build_new_doc[OF s])
qed

lemma no_delete_attempt_legacy:
  "write_file_attempt StrictStore_no_delete new_doc_input (start legacy_state) =
     (Inl (ProviderError (cross_session_message ''legacy1'' ''None'' ''team42'')),
      \<lparr>backend = legacy_state, calls = [Call_write_file new_doc_input], logged = []\<rparr>)"
  by (simp add: write_file_attempt_def STORE_write_file_def invoke_def StrictStore_def
      StrictStore_no_delete_def
      FakeStore_def strict_write_file_def new_doc_input_def write_input_def start_def
      legacy_state_def Let_def)

lemma utf8_attempt_legacy:
  "write_file_attempt StrictStore_utf8 bogus_input (start legacy_state) =
     (Inl (ProviderError (cross_session_message ''legacy1'' ''None'' ''team42'')),
      \<lparr>backend = legacy_state, calls = [Call_write_file bogus_input], logged = []\<rparr>)"
  by (simp add: write_file_attempt_def STORE_write_file_def invoke_def StrictStore_def
      StrictStore_utf8_def
      FakeStore_def strict_write_file_def bogus_input_def write_input_def start_def
      legacy_state_def Let_def)

lemma fake_attempt_empty_id:
  "write_file_attempt FakeStore empty_id_input (start empty_state) =
     (Inr (''uuid'', new_doc_info),
      \<lparr>backend = new_doc_state,
       calls = [Call_write_file empty_id_input, Call_metadata ''uuid''], logged = []\<rparr>)"
  by (simp add: write_file_attempt_def STORE_write_file_def STORE_metadata_def invoke_def
      FakeStore_def fake_write_file_def
      fake_store_def fake_metadata_def fresh_id_def length_encode_bytes Let_def
      empty_id_input_def write_input_def new_doc_info_def start_def
      empty_state_def new_doc_state_def
      info_def info_art_id_def dict_get_def dict_item_def dict_get_default_def py_or_def
      ArtifactInfo_model_validate_def int_only_def)

text \<open>The legacy-object test on the fake itself: the fake lets any session overwrite an
  object that has no session, so the overwrite stage returns and no recovery is needed.\<close>

lemma fake_attempt_legacy:
  "write_file_attempt FakeStore new_doc_input (start legacy_state) =
     (Inr (''uuid'', new_doc_info),
      \<lparr>backend = new_doc_state,
       calls = [Call_write_file new_doc_input, Call_metadata ''uuid''], logged = []\<rparr>)"
  by (simp add: write_file_attempt_def STORE_write_file_def STORE_metadata_def invoke_def
      FakeStore_def fake_write_file_def
      fake_store_def fake_metadata_def fresh_id_def length_encode_bytes Let_def
      new_doc_input_def write_input_def new_doc_info_def start_def
      legacy_state_def new_doc_state_def
      info_def info_art_id_def dict_get_def dict_item_def dict_get_default_def py_or_def
      ArtifactInfo_model_validate_def int_only_def)

lemma fake_attempt_foreign:
  "write_file_attempt FakeStore foreign_input (start owned_state) =
     (Inl (ProviderError (cross_session_message ''uuid'' ''abc123'' ''team42'')),
      \<lparr>backend = owned_state, calls = [Call_write_file foreign_input], logged = []\<rparr>)"
  by (simp add: write_file_attempt_def STORE_write_file_def invoke_def
      FakeStore_def fake_write_file_def foreign_input_def write_input_def start_def
      owned_state_def Let_def)

lemma foreign_not_legacy:
  "\<not> legacy_conflict (ProviderError (cross_session_message ''uuid'' ''abc123'' ''team42''))"
  by (simp add: legacy_conflict_def cross_session_message_def session_none_text_def
      cross_session_text_def)

lemma fake_attempt_named_none:
  "write_file_attempt FakeStore foreign_input (start named_none_state) =
     (Inl (ProviderError (cross_session_message ''uuid'' ''None'' ''team42'')),
      \<lparr>backend = named_none_state, calls = [Call_write_file foreign_input], logged = []\<rparr>)"
  by (simp add: write_file_attempt_def STORE_write_file_def invoke_def
      FakeStore_def fake_write_file_def foreign_input_def write_input_def start_def
      named_none_state_def Let_def)

lemma fake_fallback_named_none:
  "write_file_fallback FakeStore foreign_input ''uuid''
     \<lparr>backend = named_none_state, calls = [Call_write_file foreign_input], logged = []\<rparr> =
   (Inr (''uuid+'', new_doc_info\<lparr>ArtifactInfo.artifact_id := ''uuid+''\<rparr>),
    \<lparr>backend = renewed_state,
     calls = [Call_write_file foreign_input, Call_delete ''uuid'', Call_store new_doc_args,
              Call_metadata ''uuid+''],
     logged = []\<rparr>)"
  by (simp add: write_file_fallback_def store_and_build_info_def STORE_delete_def STORE_store_def
      STORE_metadata_def invoke_def FakeStore_def fake_delete_def
      fake_store_def fake_metadata_def fresh_id_def length_encode_bytes Let_def
      foreign_input_def write_input_def new_doc_info_def new_doc_args_def
      named_none_state_def renewed_state_def
      info_def info_art_id_def dict_get_def dict_item_def dict_get_default_def py_or_def
      ArtifactInfo_model_validate_def int_only_def)

lemma named_none_run:
  "write_file FakeStore ''new content'' ''doc.txt'' (Some ''team42'') ''text/plain''
     ''overwrite'' (Some []) ''utf-8'' (Some ''uuid'') (start named_none_state) =
   (Inr renewed_result,
    \<lparr>backend = renewed_state,
     calls = [Call_write_file foreign_input, Call_delete ''uuid'', Call_store new_doc_args,
              Call_metadata ''uuid+'', Call_presign_short ''uuid+''],
     logged = []\<rparr>)"
proof -
  have r: "write_file_result FakeStore (Some ''uuid'')
             (''uuid+'', new_doc_info\<lparr>ArtifactInfo.artifact_id := ''uuid+''\<rparr>)
             \<lparr>backend = renewed_state,
              calls = [Call_write_file foreign_input, Call_delete ''uuid'',
                       Call_store new_doc_args, Call_metadata ''uuid+''],
              logged = []\<rparr> =
           (Inr renewed_result,
            \<lparr>backend = renewed_state,
             calls = [Call_write_file foreign_input, Call_delete ''uuid'',
                      Call_store new_doc_args, Call_metadata ''uuid+'',
                      Call_presign_short ''uuid+''],
             logged = []\<rparr>)"
    by (simp add: write_file_result_def STORE_presign_short_def invoke_def FakeStore_def
        renewed_result_def)
  show ?thesis
    using fake_attempt_named_none legacy_conflict_message[of "''uuid''" "''team42''"]
    by (simp add: write_file_resolved[OF session_resolved(4)] foreign_input_def[symmetric]
        fake_fallback_named_none r)
qed

lemma strict_legacy_run:
  "write_file StrictStore ''new content'' ''doc.txt'' (Some ''team42'') ''text/plain''
     ''overwrite'' (Some []) ''utf-8'' (Some ''legacy1'') (start legacy_state) =
   (Inr (new_doc_result ''overwrite''),
    \<lparr>backend = new_doc_state,
     calls = [Call_write_file new_doc_input, Call_delete ''legacy1'',
              Call_store new_doc_args, Call_metadata ''uuid'', Call_presign_short ''uuid''],
     logged = []\<rparr>)"
proof -
  have p: "be_presign_short StrictStore = (\<lambda>a s. (Inr (''https://example/'' @ a), s))"
    by (simp add: StrictStore_def FakeStore_def)
  show ?thesis
    using strict_attempt_legacy legacy_conflict_message[of "''legacy1''" "''team42''"]
    by (simp add: write_file_resolved[OF session_resolved(1)] new_doc_input_def[symmetric]
        strict_fallback_legacy write_file_result_new_doc[OF p])
qed

lemma fake_legacy_run:
  "write_file FakeStore ''new content'' ''doc.txt'' (Some ''team42'') ''text/plain''
     ''overwrite'' (Some []) ''utf-8'' (Some ''legacy1'') (start legacy_state) =
   (Inr (new_doc_result ''overwrite''),
    \<lparr>backend = new_doc_state,
     calls = [Call_write_file new_doc_input, Call_metadata ''uuid'',
              Call_presign_short ''uuid''],
     logged = []\<rparr>)"
proof -
  have p: "be_presign_short FakeStore = (\<lambda>a s. (Inr (''https://example/'' @ a), s))"
    by (simp add: FakeStore_def)
  show ?thesis
    using fake_attempt_legacy
    by (simp add: write_file_resolved[OF session_resolved(4)] new_doc_input_def[symmetric]
        write_file_result_new_doc[OF p])
qed

lemma fake_empty_id_run:
  "write_file FakeStore ''new content'' ''doc.txt'' (Some ''team42'') ''text/plain''
     ''overwrite'' (Some []) ''utf-8'' (Some []) (start empty_state) =
   (Inr (new_doc_result ''create''),
    \<lparr>backend = new_doc_state,
     calls = [Call_write_file empty_id_input, Call_metadata ''uuid'',
              Call_presign_short ''uuid''],
     logged = []\<rparr>)"
proof -
  have p: "be_presign_short FakeStore = (\<lambda>a s. (Inr (''https://example/'' @ a), s))"
    by (simp add: FakeStore_def)
  show ?thesis
    using fake_attempt_empty_id
    by (simp add: write_file_resolved[OF session_resolved(4)] empty_id_input_def[symmetric]
        write_file_result_new_doc[OF p])
qed

lemma new_doc_result_fields:
  "WriteFileResult.operation (new_doc_result op) = op"
  "ArtifactInfo.session_id (new_doc_result op) = Some ''team42''"
  "ArtifactInfo.artifact_id (new_doc_result op) = ''uuid''"
  by (simp_all add: new_doc_result_def new_doc_info_def ArtifactInfo.defs WriteFileResult.defs)


lemma get_metadata_named_none:
  "map_sum id ArtifactInfo.session_id
     (fst (get_metadata FakeStore ''uuid'' (start named_none_state))) = Inr (Some ''None'')"
  by (simp add: get_metadata_def STORE_metadata_def invoke_def FakeStore_def fake_metadata_def
      start_def named_none_state_def
      info_def info_art_id_def dict_get_def dict_item_def dict_get_default_def py_or_def
      ArtifactInfo_model_validate_def int_only_def)


section \<open>\<^verbatim>\<open>write_file\<close>: the delete inside the recovery is best effort\<close>

text \<open>
  Claim C8, as amended.  Take a run of \<^verbatim>\<open>write_file\<close> that reaches the recognized
  conflict, and let \<open>d\<close> be what \<^verbatim>\<open>STORE.delete\<close> of the old artefact gives: a value or an
  exception.  In both cases the run goes on from the world the delete left, with one
  warning in the log when the delete raised, and the exception of the delete is in no
  result.  The content is encoded next.  When it encodes, the recreate step
  \<^verbatim>\<open>_store_and_build_info\<close> is performed: the call that follows \<^verbatim>\<open>delete\<close> on the store is
  \<^verbatim>\<open>store\<close> with the caller's session, filename, mime, summary and meta.  When the
  encoding raises, that exception ends the run, \<^verbatim>\<open>delete\<close> is the last call on the store
  and nothing is stored.
\<close>

theorem write_file_delete_failure_swallowed:
  assumes "validate_session_parameter env sid ''write_file'' = Inr sess"
    and "write_file_attempt env (write_input text fname sess mt summ m enc (Some old_id)) w
           = (Inl e, w1)"
    and "legacy_conflict e" and "old_id \<noteq> []"
    and "STORE_delete env old_id w1 = (d, w2)"
  shows "(str_encode env text enc = Inr data \<longrightarrow>
          write_file env text fname sid mt summ m enc (Some old_id) w =
           (case store_and_build_info env data fname mt
                   (if summ \<noteq> [] then summ else ''Written file: '' @ fname) sess
                   (case m of None \<Rightarrow> [] | Some x \<Rightarrow> x)
                   (case d of
                      Inl exc \<Rightarrow> log_line (Log_warning ''Failed to delete old artefact'' old_id) w2
                    | Inr ok \<Rightarrow> w2) of
              (Inl e', w3) \<Rightarrow> (Inl e', w3)
            | (Inr r, w3) \<Rightarrow> write_file_result env (Some old_id) r w3)
          \<and> (\<exists>rest. calls (snd (write_file env text fname sid mt summ m enc (Some old_id) w)) =
             calls w1 @ [Call_delete old_id,
                         Call_store \<lparr>sa_data = data, sa_mime = mt,
                           sa_summary = (if summ \<noteq> [] then summ else ''Written file: '' @ fname),
                           sa_filename = fname, sa_session_id = sess,
                           sa_meta = (case m of None \<Rightarrow> [] | Some x \<Rightarrow> x)\<rparr>] @ rest))
       \<and> (str_encode env text enc = Inl x \<longrightarrow>
            write_file env text fname sid mt summ m enc (Some old_id) w =
              (Inl x, case d of
                        Inl exc \<Rightarrow> log_line (Log_warning ''Failed to delete old artefact'' old_id) w2
                      | Inr ok \<Rightarrow> w2)
            \<and> calls (snd (write_file env text fname sid mt summ m enc (Some old_id) w)) =
                 calls w1 @ [Call_delete old_id])"
proof -
  let ?inp = "write_input text fname sess mt summ m enc (Some old_id)"
  let ?summ = "if summ \<noteq> [] then summ else ''Written file: '' @ fname"
  let ?meta = "case m of None \<Rightarrow> [] | Some x \<Rightarrow> x"
  let ?wd = "case d of
               Inl exc \<Rightarrow> log_line (Log_warning ''Failed to delete old artefact'' old_id) w2
             | Inr ok \<Rightarrow> w2"
  have cd: "calls ?wd = calls w1 @ [Call_delete old_id]"
    using assms(5)
    by (auto simp: STORE_delete_def invoke_def log_line_def split: prod.splits sum.splits)
  have rec: "write_file env text fname sid mt summ m enc (Some old_id) w =
           (case write_file_fallback env ?inp old_id w1 of
              (Inl e', w3) \<Rightarrow> (Inl e', w3)
            | (Inr r, w3) \<Rightarrow> write_file_result env (Some old_id) r w3)"
    using assms(2,3,4) by (simp add: write_file_resolved[OF assms(1)])
  show ?thesis
  proof (intro conjI impI)
    assume enc: "str_encode env text enc = Inr data"
    have fb: "write_file_fallback env ?inp old_id w1 =
                store_and_build_info env data fname mt ?summ sess ?meta ?wd"
      using assms(5) enc by (cases d) (simp_all add: write_file_fallback_def write_input_def)
    show eq: "write_file env text fname sid mt summ m enc (Some old_id) w =
             (case store_and_build_info env data fname mt ?summ sess ?meta ?wd of
                (Inl e', w3) \<Rightarrow> (Inl e', w3)
              | (Inr r, w3) \<Rightarrow> write_file_result env (Some old_id) r w3)"
      using rec fb by simp
    obtain y w3 where s: "store_and_build_info env data fname mt ?summ sess ?meta ?wd = (y, w3)"
      by (cases "store_and_build_info env data fname mt ?summ sess ?meta ?wd")
    then obtain rest where r: "calls w3 =
        calls ?wd @ Call_store \<lparr>sa_data = data, sa_mime = mt, sa_summary = ?summ,
                                 sa_filename = fname, sa_session_id = sess, sa_meta = ?meta\<rparr> # rest"
      using store_and_build_info_calls by blast
    show "\<exists>rest. calls (snd (write_file env text fname sid mt summ m enc (Some old_id) w)) =
               calls w1 @ [Call_delete old_id,
                           Call_store \<lparr>sa_data = data, sa_mime = mt, sa_summary = ?summ,
                             sa_filename = fname, sa_session_id = sess, sa_meta = ?meta\<rparr>] @ rest"
    proof (cases y)
      case (Inl e')
      then show ?thesis using eq s r cd by simp
    next
      case (Inr res)
      obtain z w4 where g: "write_file_result env (Some old_id) res w3 = (z, w4)"
        by (cases "write_file_result env (Some old_id) res w3")
      then have "calls w4 = calls w3 @ [Call_presign_short (fst res)]"
        by (rule write_file_result_calls(1))
      then show ?thesis using eq s r cd g Inr by simp
    qed
  next
    assume enc: "str_encode env text enc = Inl x"
    have fb: "write_file_fallback env ?inp old_id w1 = (Inl x, ?wd)"
      using assms(5) enc by (cases d) (simp_all add: write_file_fallback_def write_input_def)
    show eq: "write_file env text fname sid mt summ m enc (Some old_id) w = (Inl x, ?wd)"
      using rec fb by simp
    show "calls (snd (write_file env text fname sid mt summ m enc (Some old_id) w)) =
            calls w1 @ [Call_delete old_id]"
      unfolding eq using cd by simp
  qed
qed

lemma bogus_unknown:
  "str_encode StrictStore_utf8 ''new content'' ''bogus'' = Inl (Exception ''unknown encoding: bogus'')"
  by (simp add: StrictStore_utf8_def utf8_only_def)

lemma utf8_delete_legacy:
  "STORE_delete StrictStore_utf8 ''legacy1''
      \<lparr>backend = legacy_state, calls = [Call_write_file bogus_input], logged = []\<rparr> =
     (Inr True,
      \<lparr>backend = empty_state, calls = [Call_write_file bogus_input, Call_delete ''legacy1''],
       logged = []\<rparr>)"
  by (simp add: STORE_delete_def invoke_def StrictStore_utf8_def StrictStore_def FakeStore_def
      fake_delete_def legacy_state_def empty_state_def)

lemma utf8_bogus_run:
  "write_file StrictStore_utf8 ''new content'' ''doc.txt'' (Some ''team42'') ''text/plain''
     ''overwrite'' (Some []) ''bogus'' (Some ''legacy1'') (start legacy_state) =
   (Inl (Exception ''unknown encoding: bogus''),
    \<lparr>backend = empty_state, calls = [Call_write_file bogus_input, Call_delete ''legacy1''],
     logged = []\<rparr>)"
proof -
  have f: "write_file_fallback StrictStore_utf8 bogus_input ''legacy1''
             \<lparr>backend = legacy_state, calls = [Call_write_file bogus_input], logged = []\<rparr> =
           (Inl (Exception ''unknown encoding: bogus''),
            \<lparr>backend = empty_state, calls = [Call_write_file bogus_input, Call_delete ''legacy1''],
             logged = []\<rparr>)"
    using bogus_unknown
    by (simp add: write_file_fallback_def utf8_delete_legacy)
      (simp add: bogus_input_def write_input_def)
  show ?thesis
    using utf8_attempt_legacy legacy_conflict_message[of "''legacy1''" "''team42''"]
    by (simp add: write_file_resolved[OF session_resolved(3)] bogus_input_def[symmetric] f)
qed

text \<open>
  In the strict store with a failing \<^verbatim>\<open>delete\<close>, the overwrite of the legacy object
  still returns the new artefact.  The store has seen \<^verbatim>\<open>write_file\<close>, \<^verbatim>\<open>delete\<close>,
  \<^verbatim>\<open>store\<close>, \<^verbatim>\<open>metadata\<close> and \<^verbatim>\<open>presign_short\<close>; the log has the warning; the legacy
  object is still there, beside the new one.  With an encoding that does not exist, the
  run ends with the error of the codec.
\<close>

theorem write_file_delete_failure_swallowed_witness:
  "STORE_delete StrictStore_no_delete ''legacy1''
      \<lparr>backend = legacy_state, calls = [Call_write_file new_doc_input], logged = []\<rparr> =
     (Inl (Exception ''delete failed''),
      \<lparr>backend = legacy_state, calls = [Call_write_file new_doc_input, Call_delete ''legacy1''],
       logged = []\<rparr>)
   \<and> write_file StrictStore_no_delete ''new content'' ''doc.txt'' (Some ''team42'') ''text/plain''
        ''overwrite'' (Some []) ''utf-8'' (Some ''legacy1'') (start legacy_state) =
       (Inr (new_doc_result ''overwrite''),
        \<lparr>backend = orphan_state,
         calls = [Call_write_file new_doc_input, Call_delete ''legacy1'',
                  Call_store new_doc_args, Call_metadata ''uuid'', Call_presign_short ''uuid''],
         logged = [Log_warning ''Failed to delete old artefact'' ''legacy1'']\<rparr>)
   \<and> str_encode StrictStore_utf8 ''new content'' ''bogus''
       = Inl (Exception ''unknown encoding: bogus'')
   \<and> fst (write_file StrictStore_utf8 ''new content'' ''doc.txt'' (Some ''team42'') ''text/plain''
        ''overwrite'' (Some []) ''bogus'' (Some ''legacy1'') (start legacy_state))
       = Inl (Exception ''unknown encoding: bogus'')"
proof -
  have d: "STORE_delete StrictStore_no_delete ''legacy1''
      \<lparr>backend = legacy_state, calls = [Call_write_file new_doc_input], logged = []\<rparr> =
     (Inl (Exception ''delete failed''),
      \<lparr>backend = legacy_state, calls = [Call_write_file new_doc_input, Call_delete ''legacy1''],
       logged = []\<rparr>)"
    by (simp add: STORE_delete_def invoke_def StrictStore_no_delete_def)
  have e: "str_encode StrictStore_no_delete ''new content'' ''utf-8'' =
             Inr (encode_bytes ''new content'')"
    by (simp add: StrictStore_no_delete_def StrictStore_def FakeStore_def)
  have p: "be_presign_short StrictStore_no_delete = (\<lambda>a s. (Inr (''https://example/'' @ a), s))"
    by (simp add: StrictStore_no_delete_def StrictStore_def FakeStore_def)
  have f: "store_and_build_info StrictStore_no_delete (encode_bytes ''new content'') ''doc.txt''
             ''text/plain'' ''overwrite'' ''team42'' []
             \<lparr>backend = legacy_state,
              calls = [Call_write_file new_doc_input, Call_delete ''legacy1''],
              logged = [Log_warning ''Failed to delete old artefact'' ''legacy1'']\<rparr> =
           (Inr (''uuid'', new_doc_info),
            \<lparr>backend = orphan_state,
             calls = [Call_write_file new_doc_input, Call_delete ''legacy1'',
                      Call_store new_doc_args, Call_metadata ''uuid''],
             logged = [Log_warning ''Failed to delete old artefact'' ''legacy1'']\<rparr>)"
    by (simp add: STORE_store_def STORE_metadata_def
      invoke_def store_and_build_info_def
      StrictStore_no_delete_def StrictStore_def FakeStore_def
      fake_store_def fake_metadata_def fresh_id_def length_encode_bytes Let_def
      new_doc_args_def new_doc_info_def
      legacy_state_def new_doc_state_def orphan_state_def
      info_def info_art_id_def dict_get_def dict_item_def dict_get_default_def py_or_def
      ArtifactInfo_model_validate_def int_only_def)
  have a: "write_file StrictStore_no_delete ''new content'' ''doc.txt'' (Some ''team42'')
          ''text/plain'' ''overwrite'' (Some []) ''utf-8'' (Some ''legacy1'') (start legacy_state) =
       (Inr (new_doc_result ''overwrite''),
        \<lparr>backend = orphan_state,
         calls = [Call_write_file new_doc_input, Call_delete ''legacy1'',
                  Call_store new_doc_args, Call_metadata ''uuid'', Call_presign_short ''uuid''],
         logged = [Log_warning ''Failed to delete old artefact'' ''legacy1'']\<rparr>)"
    using write_file_delete_failure_swallowed[OF session_resolved(2)
        no_delete_attempt_legacy[unfolded new_doc_input_def]
        legacy_conflict_message _ d[unfolded new_doc_input_def],
        THEN conjunct1, rule_format, OF _ e, THEN conjunct1]
    by (simp add: new_doc_input_def[symmetric] log_line_def f write_file_result_new_doc[OF p])
  have b: "fst (write_file StrictStore_utf8 ''new content'' ''doc.txt'' (Some ''team42'')
        ''text/plain'' ''overwrite'' (Some []) ''bogus'' (Some ''legacy1'') (start legacy_state))
       = Inl (Exception ''unknown encoding: bogus'')"
    using write_file_delete_failure_swallowed[OF session_resolved(3)
        utf8_attempt_legacy[unfolded bogus_input_def]
        legacy_conflict_message _ utf8_delete_legacy[unfolded bogus_input_def],
        THEN conjunct2, rule_format, OF _ bogus_unknown, THEN conjunct1]
    by simp
  show ?thesis using d a b bogus_unknown by simp
qed

text \<open>
  The claim as it was stated fails when the content cannot be encoded.  In the strict
  store behind the codec that knows \<^verbatim>\<open>utf-8\<close> only, the overwrite of the legacy object
  with the encoding \<^verbatim>\<open>bogus\<close> reaches the recognized conflict and deletes \<^verbatim>\<open>legacy1\<close>;
  then \<^verbatim>\<open>content.encode\<close> raises.  The store has seen \<^verbatim>\<open>write_file\<close> and \<^verbatim>\<open>delete\<close> and
  no \<^verbatim>\<open>store\<close>: there is no recreate call, and the store is left empty.
\<close>

theorem write_file_delete_failure_swallowed_counterexample:
  "write_file_attempt StrictStore_utf8 bogus_input (start legacy_state) =
     (Inl (ProviderError (cross_session_message ''legacy1'' ''None'' ''team42'')),
      \<lparr>backend = legacy_state, calls = [Call_write_file bogus_input], logged = []\<rparr>)
   \<and> legacy_conflict (ProviderError (cross_session_message ''legacy1'' ''None'' ''team42''))
   \<and> write_file StrictStore_utf8 ''new content'' ''doc.txt'' (Some ''team42'') ''text/plain''
       ''overwrite'' (Some []) ''bogus'' (Some ''legacy1'') (start legacy_state) =
     (Inl (Exception ''unknown encoding: bogus''),
      \<lparr>backend = empty_state, calls = [Call_write_file bogus_input, Call_delete ''legacy1''],
       logged = []\<rparr>)
   \<and> objects empty_state = []"
  using utf8_attempt_legacy legacy_conflict_message[of "''legacy1''" "''team42''"] utf8_bogus_run
  by (simp add: empty_state_def)

section \<open>\<^verbatim>\<open>write_file\<close>: the operation tag and the session of the result\<close>

lemma opt_str_field_value:
  assumes "opt_str_field v = Some r"
  shows "of_opt_str r = v"
  using assms by (cases v) auto

lemma info_session_value:
  assumes "info intf m fb fs = Inr i"
  shows "of_opt_str (ArtifactInfo.session_id i) = py_or (dict_get m ''session_id'') fs"
  using info_Inr_fields(2)[OF assms] by (rule opt_str_field_value)

lemma reports_session_value:
  assumes "reports_session sess m"
  shows "py_or (dict_get m ''session_id'') (VStr sess) = VStr sess"
  using assms by (auto simp: reports_session_def py_or_def split: if_splits)

lemma write_file_attempt_Inr:
  assumes "write_file_attempt env inp w = (Inr (a, i), w2)"
  shows "\<exists>s1 m s2. be_write_file env inp (backend w) = (Inr a, s1)
           \<and> be_metadata env a s1 = (Inr m, s2)
           \<and> info (int_field env) m (Some a) (VStr (wa_session_id inp)) = Inr i"
  using assms
  by (auto simp: write_file_attempt_def STORE_write_file_def STORE_metadata_def invoke_def
      split: prod.splits sum.splits)

lemma store_and_build_info_Inr:
  assumes "store_and_build_info env data fname mt summ sess m w = (Inr (a, i), w2)"
  shows "\<exists>s1 meta_raw s2.
           be_store env \<lparr>sa_data = data, sa_mime = mt, sa_summary = summ,
                          sa_filename = fname, sa_session_id = sess, sa_meta = m\<rparr> (backend w)
             = (Inr a, s1)
           \<and> be_metadata env a s1 = (Inr meta_raw, s2)
           \<and> info (int_field env) meta_raw (Some a) (VStr sess) = Inr i"
  using assms
  by (auto simp: store_and_build_info_def STORE_store_def STORE_metadata_def invoke_def
      split: prod.splits sum.splits)

lemma write_file_fallback_Inr:
  assumes "write_file_fallback env inp old_id w = (Inr (a, i), w2)"
  shows "\<exists>args s0 s1 meta_raw s2. sa_session_id args = wa_session_id inp
           \<and> be_store env args s0 = (Inr a, s1)
           \<and> be_metadata env a s1 = (Inr meta_raw, s2)
           \<and> info (int_field env) meta_raw (Some a) (VStr (wa_session_id inp)) = Inr i"
proof -
  obtain data wd where
    "store_and_build_info env data (wa_filename inp) (wa_mime inp) (wa_summary inp)
       (wa_session_id inp) (wa_meta inp) wd = (Inr (a, i), w2)"
    using assms by (auto simp: write_file_fallback_def Let_def split: sum.splits)
  then obtain s1 meta_raw s2 where
    "be_store env \<lparr>sa_data = data, sa_mime = wa_mime inp, sa_summary = wa_summary inp,
                    sa_filename = wa_filename inp, sa_session_id = wa_session_id inp,
                    sa_meta = wa_meta inp\<rparr> (backend wd) = (Inr a, s1)"
    "be_metadata env a s1 = (Inr meta_raw, s2)"
    "info (int_field env) meta_raw (Some a) (VStr (wa_session_id inp)) = Inr i"
    using store_and_build_info_Inr by blast
  moreover have "sa_session_id \<lparr>sa_data = data, sa_mime = wa_mime inp,
                    sa_summary = wa_summary inp,
                    sa_filename = wa_filename inp, sa_session_id = wa_session_id inp,
                    sa_meta = wa_meta inp\<rparr> = wa_session_id inp"
    by simp
  ultimately show ?thesis by blast
qed

text \<open>
  Claim C1, as amended.  Let \<^verbatim>\<open>write_file\<close> return a result, by the direct write or by
  the delete-then-recreate recovery.  Then the result's \<^verbatim>\<open>operation\<close> is \<^verbatim>\<open>"overwrite"\<close>
  when \<^verbatim>\<open>overwrite_artifact_id\<close> is a non-empty string and \<^verbatim>\<open>"create"\<close> when it is
  \<^verbatim>\<open>None\<close> or empty.  The session was resolved, to \<open>sess\<close>; the store wrote an artefact
  \<open>a\<close>, by \<^verbatim>\<open>write_file\<close> with the caller's input or by \<^verbatim>\<open>store\<close> in the session \<open>sess\<close>, and
  answered the metadata read of \<open>a\<close> with a record \<open>meta_raw\<close>; and the result's
  \<^verbatim>\<open>session_id\<close> is the \<^verbatim>\<open>session_id\<close> of that record when it has a non-empty one, and
  \<open>sess\<close>, the caller's effective session, when it has none.
\<close>

theorem write_file_operation_and_session:
  assumes "write_file env text fname sid mt summ m enc ov w = (Inr r, w')"
  shows "WriteFileResult.operation r =
           (if ov = None \<or> ov = Some [] then ''create'' else ''overwrite'')
       \<and> (\<exists>sess a s0 s1 meta_raw s2.
              validate_session_parameter env sid ''write_file'' = Inr sess
              \<and> (be_write_file env (write_input text fname sess mt summ m enc ov) s0 = (Inr a, s1)
                  \<or> (\<exists>args. sa_session_id args = sess \<and> be_store env args s0 = (Inr a, s1)))
              \<and> be_metadata env a s1 = (Inr meta_raw, s2)
              \<and> of_opt_str (ArtifactInfo.session_id r)
                  = py_or (dict_get meta_raw ''session_id'') (VStr sess))"
proof -
  obtain sess where sess: "validate_session_parameter env sid ''write_file'' = Inr sess"
    using assms write_file_Inr_session by blast
  let ?inp = "write_input text fname sess mt summ m enc ov"
  have si: "wa_session_id ?inp = sess" by (simp add: write_input_def)
  note eq = write_file_resolved[OF sess, of "text" fname mt summ m enc ov w]
  obtain x w1 where att: "write_file_attempt env ?inp w = (x, w1)"
    by (cases "write_file_attempt env ?inp w")
  have "\<exists>a i wr s0 s1 meta_raw s2. write_file_result env ov (a, i) wr = (Inr r, w')
          \<and> (be_write_file env ?inp s0 = (Inr a, s1)
              \<or> (\<exists>args. sa_session_id args = sess \<and> be_store env args s0 = (Inr a, s1)))
          \<and> be_metadata env a s1 = (Inr meta_raw, s2)
          \<and> info (int_field env) meta_raw (Some a) (VStr sess) = Inr i"
  proof (cases x)
    case (Inr res)
    obtain a i where res: "res = (a, i)" by (cases res)
    have fin: "write_file_result env ov (a, i) w1 = (Inr r, w')"
      using assms eq att Inr res by simp
    obtain s1 mm s2 where "be_write_file env ?inp (backend w) = (Inr a, s1)"
      "be_metadata env a s1 = (Inr mm, s2)"
      "info (int_field env) mm (Some a) (VStr (wa_session_id ?inp)) = Inr i"
      using write_file_attempt_Inr att Inr res by blast
    then show ?thesis using fin si by metis
  next
    case (Inl e)
    then obtain old_id where ov: "ov = Some old_id"
      and rec: "(case write_file_fallback env ?inp old_id w1 of
                   (Inl e', w2) \<Rightarrow> (Inl e', w2)
                 | (Inr r0, w2) \<Rightarrow> write_file_result env ov r0 w2) = (Inr r, w')"
      using assms eq att by (cases ov) (auto split: if_splits)
    obtain y w2 where fb: "write_file_fallback env ?inp old_id w1 = (y, w2)"
      by (cases "write_file_fallback env ?inp old_id w1")
    then obtain a i where y: "y = Inr (a, i)"
      and fin: "write_file_result env ov (a, i) w2 = (Inr r, w')"
      using rec by (cases y) auto
    obtain args s0 s1 mm s2 where "sa_session_id args = wa_session_id ?inp"
      "be_store env args s0 = (Inr a, s1)" "be_metadata env a s1 = (Inr mm, s2)"
      "info (int_field env) mm (Some a) (VStr (wa_session_id ?inp)) = Inr i"
      using write_file_fallback_Inr fb y by blast
    then show ?thesis using fin si by metis
  qed
  then obtain a i wr s0 s1 meta_raw s2 where
    fin: "write_file_result env ov (a, i) wr = (Inr r, w')"
    and wr: "be_write_file env ?inp s0 = (Inr a, s1)
              \<or> (\<exists>args. sa_session_id args = sess \<and> be_store env args s0 = (Inr a, s1))"
    and md: "be_metadata env a s1 = (Inr meta_raw, s2)"
    and i: "info (int_field env) meta_raw (Some a) (VStr sess) = Inr i"
    by blast
  have "of_opt_str (ArtifactInfo.session_id r)
          = py_or (dict_get meta_raw ''session_id'') (VStr sess)"
    using info_session_value[OF i] write_file_result_fields(2)[OF fin] by simp
  then show ?thesis
    using write_file_result_fields(1)[OF fin] sess wr md by blast
qed

lemma fake_store_reports_session:
  assumes "fake_store args s = (Inr a, s1)" and "fake_metadata a s1 = (Inr m, s2)"
  shows "reports_session (sa_session_id args) m"
  using assms
  by (auto simp: fake_store_def fake_metadata_def Let_def update_conv' reports_session_def
      dict_get_def split: option.splits)

lemma fake_write_file_stores:
  assumes "fake_write_file inp s = (Inr a, s1)"
  shows "\<exists>args s0. sa_session_id args = wa_session_id inp \<and> fake_store args s0 = (Inr a, s1)"
proof -
  let ?args = "\<lparr>sa_data = encode_bytes (wa_content inp), sa_mime = wa_mime inp,
             sa_summary = wa_summary inp, sa_filename = wa_filename inp,
             sa_session_id = wa_session_id inp, sa_meta = wa_meta inp\<rparr>"
  have "\<exists>s0. fake_store ?args s0 = (Inr a, s1)"
    using assms
    by (auto simp: fake_write_file_def Let_def split: option.splits if_splits pyval.splits)
  moreover have "sa_session_id ?args = wa_session_id inp" by simp
  ultimately show ?thesis by blast
qed

lemma strict_write_file_stores:
  assumes "strict_write_file inp s = (Inr a, s1)"
  shows "fake_write_file inp s = (Inr a, s1)"
  using assms
  by (auto simp: strict_write_file_def Let_def split: option.splits if_splits)

text \<open>The fake and the strict store file every artefact under the session of the write.\<close>

lemma fake_reports_session:
  assumes "env = FakeStore \<or> env = StrictStore"
    and "be_write_file env inp s0 = (Inr a, s1)
         \<or> (\<exists>args. sa_session_id args = wa_session_id inp \<and> be_store env args s0 = (Inr a, s1))"
    and "be_metadata env a s1 = (Inr mm, s2)"
  shows "reports_session (wa_session_id inp) mm"
proof -
  have st: "be_store env = fake_store" and md: "be_metadata env = fake_metadata"
    and wf: "be_write_file env = fake_write_file \<or> be_write_file env = strict_write_file"
    using assms(1) by (auto simp: StrictStore_def FakeStore_def)
  have "\<exists>args s0. sa_session_id args = wa_session_id inp \<and> fake_store args s0 = (Inr a, s1)"
    using assms(2)
  proof
    assume "be_write_file env inp s0 = (Inr a, s1)"
    then have "fake_write_file inp s0 = (Inr a, s1)"
      using wf strict_write_file_stores by auto
    then show ?thesis by (rule fake_write_file_stores)
  next
    assume "\<exists>args. sa_session_id args = wa_session_id inp \<and> be_store env args s0 = (Inr a, s1)"
    then show ?thesis unfolding st by blast
  qed
  then show ?thesis
    using assms(3) md fake_store_reports_session by metis
qed

text \<open>
  The legacy-object scenario of the tests, on the fake (the direct write) and on the
  strict store (the recovery): both results have \<^verbatim>\<open>operation = "overwrite"\<close> and the
  session \<^verbatim>\<open>team42\<close> of the caller.
\<close>

theorem write_file_operation_and_session_witness:
  "write_file FakeStore ''new content'' ''doc.txt'' (Some ''team42'') ''text/plain''
        ''overwrite'' (Some []) ''utf-8'' (Some ''legacy1'') (start legacy_state) =
       (Inr (new_doc_result ''overwrite''),
        \<lparr>backend = new_doc_state,
         calls = [Call_write_file new_doc_input, Call_metadata ''uuid'',
                  Call_presign_short ''uuid''],
         logged = []\<rparr>)
   \<and> write_file StrictStore ''new content'' ''doc.txt'' (Some ''team42'') ''text/plain''
        ''overwrite'' (Some []) ''utf-8'' (Some ''legacy1'') (start legacy_state) =
       (Inr (new_doc_result ''overwrite''),
        \<lparr>backend = new_doc_state,
         calls = [Call_write_file new_doc_input, Call_delete ''legacy1'',
                  Call_store new_doc_args, Call_metadata ''uuid'', Call_presign_short ''uuid''],
         logged = []\<rparr>)
   \<and> WriteFileResult.operation (new_doc_result ''overwrite'') = ''overwrite''
   \<and> validate_session_parameter StrictStore (Some ''team42'') ''write_file'' = Inr ''team42''
   \<and> ArtifactInfo.session_id (new_doc_result ''overwrite'') = Some ''team42''"
proof -
  note t = write_file_operation_and_session[OF strict_legacy_run]
  have op: "WriteFileResult.operation (new_doc_result ''overwrite'') = ''overwrite''"
    using t by simp
  obtain sess a s0 s1 meta_raw s2 where
    v: "validate_session_parameter StrictStore (Some ''team42'') ''write_file'' = Inr sess"
    and wr: "be_write_file StrictStore
                (write_input ''new content'' ''doc.txt'' sess ''text/plain'' ''overwrite'' (Some [])
                   ''utf-8'' (Some ''legacy1'')) s0 = (Inr a, s1)
              \<or> (\<exists>args. sa_session_id args = sess \<and> be_store StrictStore args s0 = (Inr a, s1))"
    and md: "be_metadata StrictStore a s1 = (Inr meta_raw, s2)"
    and s: "of_opt_str (ArtifactInfo.session_id (new_doc_result ''overwrite''))
              = py_or (dict_get meta_raw ''session_id'') (VStr sess)"
    using t by blast
  have sess: "sess = ''team42''" using v by (simp add: session_resolved(1))
  have "wa_session_id new_doc_input = ''team42''"
    by (simp add: new_doc_input_def write_input_def)
  then have "reports_session ''team42'' meta_raw"
    using fake_reports_session[of StrictStore new_doc_input s0 a s1 meta_raw s2] wr md sess
    by (simp add: new_doc_input_def[symmetric])
  then have "of_opt_str (ArtifactInfo.session_id (new_doc_result ''overwrite'')) = VStr ''team42''"
    using s sess reports_session_value by simp
  then have se: "ArtifactInfo.session_id (new_doc_result ''overwrite'') = Some ''team42''"
    by (cases "ArtifactInfo.session_id (new_doc_result ''overwrite'')") simp_all
  show ?thesis
    using fake_legacy_run strict_legacy_run op se session_resolved(1) by simp
qed

lemma in_place_run:
  "map_sum id (\<lambda>r. (ArtifactInfo.artifact_id r, WriteFileResult.operation r,
                      ArtifactInfo.session_id r))
     (fst (write_file InPlaceStore ''new content'' ''doc.txt'' (Some ''team42'') ''text/plain''
             ''overwrite'' (Some []) ''utf-8'' (Some ''uuid'') (start owned_state)))
   = Inr (''uuid'', ''overwrite'', Some ''abc123'')"
  unfolding write_file_resolved[OF session_resolved(5)]
  by (simp add: write_file_attempt_def write_file_result_def
      STORE_write_file_def STORE_metadata_def STORE_presign_short_def invoke_def
      InPlaceStore_def FakeStore_def in_place_write_file_def fake_metadata_def
      length_encode_bytes write_input_def start_def owned_state_def
      info_def info_art_id_def dict_get_def dict_item_def dict_get_default_def py_or_def
      ArtifactInfo_model_validate_def int_only_def ArtifactInfo.defs WriteFileResult.defs)

text \<open>
  The claim as it was stated fails in two places.  For an \<^verbatim>\<open>overwrite_artifact_id\<close> that
  is supplied but empty, the fake stores a new object and the result says \<^verbatim>\<open>"create"\<close>.
  And the session of the result is read from the store's record before the caller's
  session is: on the store that overwrites in place, session \<^verbatim>\<open>team42\<close> overwrites the
  object that \<^verbatim>\<open>abc123\<close> stored, and the result, an \<^verbatim>\<open>"overwrite"\<close> of \<^verbatim>\<open>uuid\<close>, has the
  session \<^verbatim>\<open>abc123\<close>.
\<close>

theorem write_file_operation_and_session_counterexample:
  "map_sum id WriteFileResult.operation
     (fst (write_file FakeStore ''new content'' ''doc.txt'' (Some ''team42'') ''text/plain''
             ''overwrite'' (Some []) ''utf-8'' (Some []) (start empty_state)))
   = Inr ''create''
   \<and> validate_session_parameter InPlaceStore (Some ''team42'') ''write_file'' = Inr ''team42''
   \<and> map_sum id (\<lambda>r. (ArtifactInfo.artifact_id r, WriteFileResult.operation r,
                        ArtifactInfo.session_id r))
       (fst (write_file InPlaceStore ''new content'' ''doc.txt'' (Some ''team42'') ''text/plain''
               ''overwrite'' (Some []) ''utf-8'' (Some ''uuid'') (start owned_state)))
     = Inr (''uuid'', ''overwrite'', Some ''abc123'')"
  by (simp add: fake_empty_id_run new_doc_result_fields session_resolved(5) in_place_run)

section \<open>Copying\<close>

lemma copy_file_calls:
  "\<exists>rest. calls (snd (copy_file env a fn m w)) =
            calls w @ Call_copy_file a fn None (case m of None \<Rightarrow> [] | Some d \<Rightarrow> d) # rest
          \<and> (rest = [] \<or> (\<exists>new_id. rest = [Call_metadata new_id]))"
  by (auto simp: copy_file_def STORE_copy_file_def STORE_metadata_def invoke_def
      split: prod.splits sum.splits)

lemma copy_file_Inr:
  assumes "copy_file env a fn m w = (Inr r, w')"
  shows "\<exists>new_id s1 meta_new s2 i.
           be_copy_file env a fn None (case m of None \<Rightarrow> [] | Some d \<Rightarrow> d) (backend w)
             = (Inr new_id, s1)
           \<and> be_metadata env new_id s1 = (Inr meta_new, s2)
           \<and> info (int_field env) meta_new (Some new_id) (dict_get meta_new ''session_id'') = Inr i
           \<and> r = ArtifactInfo.extend i (CopyFileResult.fields a ''copy'')
           \<and> calls w' = calls w @ [Call_copy_file a fn None (case m of None \<Rightarrow> [] | Some d \<Rightarrow> d),
                                   Call_metadata new_id]"
  using assms
  by (auto simp: copy_file_def STORE_copy_file_def STORE_metadata_def invoke_def
      split: prod.splits sum.splits)

lemma no_id_source_fallback:
  assumes "no_id_source m None"
  shows "spec_artifact_id m (Some f) = VStr f"
  using assms
  by (cases "dict_get m ''key''")
    (auto simp: no_id_source_def spec_artifact_id_def key_segment_def)

lemma named_artifact_id:
  assumes "dict_get m ''artifact_id'' = VStr a" and "a \<noteq> []"
  shows "spec_artifact_id m fb = VStr a"
  using assms by (simp add: spec_artifact_id_def)

text \<open>
  Claim C9, as amended.  Every run of \<^verbatim>\<open>copy_file\<close> calls the store's \<^verbatim>\<open>copy_file\<close> first,
  once, with the requested id, the filename, the meta and \<^verbatim>\<open>target_session_id=None\<close>; the
  only call that can follow is the metadata read.  A result it returns has the requested
  id as \<^verbatim>\<open>source_artifact_id\<close> and \<^verbatim>\<open>operation = "copy"\<close>, and its \<^verbatim>\<open>session_id\<close> is the one
  in the new artefact's metadata.  Its \<^verbatim>\<open>artifact_id\<close> is what the chain of \<^verbatim>\<open>_info\<close> gives
  for the new artefact's metadata with the new id as the fallback: the new id when that
  metadata has no identifier of its own, or has the new id in its field \<^verbatim>\<open>artifact_id\<close>.
\<close>

theorem copy_file_same_session:
  "(\<exists>rest. calls (snd (copy_file env a fn m w)) =
            calls w @ Call_copy_file a fn None (case m of None \<Rightarrow> [] | Some d \<Rightarrow> d) # rest
          \<and> (rest = [] \<or> (\<exists>new_id. rest = [Call_metadata new_id])))
   \<and> (copy_file env a fn m w = (Inr r, w') \<longrightarrow>
        (\<exists>new_id s1 meta_new s2.
           be_copy_file env a fn None (case m of None \<Rightarrow> [] | Some d \<Rightarrow> d) (backend w)
             = (Inr new_id, s1)
           \<and> be_metadata env new_id s1 = (Inr meta_new, s2)
           \<and> source_artifact_id r = a
           \<and> CopyFileResult.operation r = ''copy''
           \<and> of_opt_str (ArtifactInfo.session_id r) = dict_get meta_new ''session_id''
           \<and> VStr (ArtifactInfo.artifact_id r) = spec_artifact_id meta_new (Some new_id)
           \<and> (no_id_source meta_new None
                \<or> (dict_get meta_new ''artifact_id'' = VStr new_id \<and> new_id \<noteq> [])
               \<longrightarrow> ArtifactInfo.artifact_id r = new_id)))"
proof (intro conjI impI)
  show "\<exists>rest. calls (snd (copy_file env a fn m w)) =
            calls w @ Call_copy_file a fn None (case m of None \<Rightarrow> [] | Some d \<Rightarrow> d) # rest
          \<and> (rest = [] \<or> (\<exists>new_id. rest = [Call_metadata new_id]))"
    by (rule copy_file_calls)
next
  assume h: "copy_file env a fn m w = (Inr r, w')"
  then obtain new_id s1 meta_new s2 i where
    c: "be_copy_file env a fn None (case m of None \<Rightarrow> [] | Some d \<Rightarrow> d) (backend w)
             = (Inr new_id, s1)"
    and md: "be_metadata env new_id s1 = (Inr meta_new, s2)"
    and i: "info (int_field env) meta_new (Some new_id) (dict_get meta_new ''session_id'') = Inr i"
    and r: "r = ArtifactInfo.extend i (CopyFileResult.fields a ''copy'')"
    using copy_file_Inr by blast
  have "info_art_id meta_new (Some new_id) = Inr (VStr (ArtifactInfo.artifact_id i))"
    using i by (rule info_Inr_fields(1))
  then have chain: "VStr (ArtifactInfo.artifact_id i) = spec_artifact_id meta_new (Some new_id)"
    by (rule info_art_id_spec)
  have named: "ArtifactInfo.artifact_id i = new_id"
    if "no_id_source meta_new None
          \<or> (dict_get meta_new ''artifact_id'' = VStr new_id \<and> new_id \<noteq> [])"
  proof -
    have "spec_artifact_id meta_new (Some new_id) = VStr new_id"
      using that no_id_source_fallback named_artifact_id by blast
    then show ?thesis using chain by simp
  qed
  have se: "of_opt_str (ArtifactInfo.session_id i) = dict_get meta_new ''session_id''"
    using info_session_value[OF i] by (simp add: py_or_def)
  have f: "ArtifactInfo.artifact_id r = ArtifactInfo.artifact_id i" "source_artifact_id r = a"
    "CopyFileResult.operation r = ''copy''"
    "ArtifactInfo.session_id r = ArtifactInfo.session_id i"
    unfolding r by (simp_all add: ArtifactInfo.defs CopyFileResult.defs)
  show "\<exists>new_id s1 meta_new s2.
           be_copy_file env a fn None (case m of None \<Rightarrow> [] | Some d \<Rightarrow> d) (backend w)
             = (Inr new_id, s1)
           \<and> be_metadata env new_id s1 = (Inr meta_new, s2)
           \<and> source_artifact_id r = a
           \<and> CopyFileResult.operation r = ''copy''
           \<and> of_opt_str (ArtifactInfo.session_id r) = dict_get meta_new ''session_id''
           \<and> VStr (ArtifactInfo.artifact_id r) = spec_artifact_id meta_new (Some new_id)
           \<and> (no_id_source meta_new None
                \<or> (dict_get meta_new ''artifact_id'' = VStr new_id \<and> new_id \<noteq> [])
               \<longrightarrow> ArtifactInfo.artifact_id r = new_id)"
    using c md chain named se f
    by (intro exI[of _ new_id] exI[of _ s1] exI[of _ meta_new] exI[of _ s2]) simp
qed

lemma copy_run:
  "copy_file CopyStore ''uuid'' (Some ''copy.txt'') None (start owned_state) =
     (Inr (ArtifactInfo.extend copied_info (CopyFileResult.fields ''uuid'' ''copy'')),
      \<lparr>backend = copied_state,
       calls = [Call_copy_file ''uuid'' (Some ''copy.txt'') None [], Call_metadata ''uuid+''],
       logged = []\<rparr>)"
  by (simp add: copy_file_def STORE_copy_file_def STORE_metadata_def invoke_def
      CopyStore_def FakeStore_def fake_copy_file_def fake_metadata_def fresh_id_def Let_def
      start_def owned_state_def copied_state_def copied_info_def
      info_def info_art_id_def dict_get_def dict_item_def dict_get_default_def py_or_def
      ArtifactInfo_model_validate_def int_only_def)

text \<open>A copy of the object that session \<^verbatim>\<open>abc123\<close> owns, in the store whose copy names the
  new artefact: the store is called with no target session, the copy is in \<^verbatim>\<open>abc123\<close>, and
  the result has the new id \<^verbatim>\<open>uuid+\<close>.\<close>

theorem copy_file_same_session_witness:
  "copy_file CopyStore ''uuid'' (Some ''copy.txt'') None (start owned_state) =
       (Inr (ArtifactInfo.extend copied_info (CopyFileResult.fields ''uuid'' ''copy'')),
        \<lparr>backend = copied_state,
         calls = [Call_copy_file ''uuid'' (Some ''copy.txt'') None [], Call_metadata ''uuid+''],
         logged = []\<rparr>)
   \<and> be_copy_file CopyStore ''uuid'' (Some ''copy.txt'') None [] owned_state
       = (Inr ''uuid+'', copied_state)
   \<and> map_sum id (\<lambda>m. dict_get m ''artifact_id'') (fst (be_metadata CopyStore ''uuid+'' copied_state))
       = Inr (VStr ''uuid+'')
   \<and> ArtifactInfo.artifact_id
        (ArtifactInfo.extend copied_info (CopyFileResult.fields ''uuid'' ''copy'')) = ''uuid+''
   \<and> source_artifact_id
        (ArtifactInfo.extend copied_info (CopyFileResult.fields ''uuid'' ''copy'')) = ''uuid''
   \<and> CopyFileResult.operation
        (ArtifactInfo.extend copied_info (CopyFileResult.fields ''uuid'' ''copy'')) = ''copy''
   \<and> ArtifactInfo.session_id
        (ArtifactInfo.extend copied_info (CopyFileResult.fields ''uuid'' ''copy'')) = Some ''abc123''"
proof -
  let ?r = "ArtifactInfo.extend copied_info (CopyFileResult.fields ''uuid'' ''copy'')"
  have b: "be_copy_file CopyStore ''uuid'' (Some ''copy.txt'') None [] owned_state
       = (Inr ''uuid+'', copied_state)"
    by (simp add: CopyStore_def fake_copy_file_def fresh_id_def Let_def owned_state_def
        copied_state_def)
  have g: "be_metadata CopyStore ''uuid+'' copied_state
             = (Inr (map_of (the (map_of (objects copied_state) ''uuid+''))), copied_state)"
    by (simp add: CopyStore_def FakeStore_def fake_metadata_def copied_state_def owned_state_def)
  have n: "dict_get (map_of (the (map_of (objects copied_state) ''uuid+''))) ''artifact_id''
             = VStr ''uuid+''"
    by (simp add: copied_state_def owned_state_def dict_get_def)
  obtain new_id s1 meta_new s2 where
    c: "be_copy_file CopyStore ''uuid'' (Some ''copy.txt'') None
        (case None of None \<Rightarrow> [] | Some d \<Rightarrow> d) (backend (start owned_state)) = (Inr new_id, s1)"
    and md: "be_metadata CopyStore new_id s1 = (Inr meta_new, s2)"
    and f: "source_artifact_id ?r = ''uuid''" "CopyFileResult.operation ?r = ''copy''"
    and se: "of_opt_str (ArtifactInfo.session_id ?r) = dict_get meta_new ''session_id''"
    and imp: "no_id_source meta_new None
                \<or> (dict_get meta_new ''artifact_id'' = VStr new_id \<and> new_id \<noteq> [])
               \<longrightarrow> ArtifactInfo.artifact_id ?r = new_id"
    using copy_file_same_session[THEN conjunct2, rule_format, OF copy_run] by blast
  have id: "new_id = ''uuid+''" and s1: "s1 = copied_state"
    using c b by (simp_all add: start_def)
  have mn: "meta_new = map_of (the (map_of (objects copied_state) ''uuid+''))"
    using md g unfolding id s1 by simp
  have a: "ArtifactInfo.artifact_id ?r = ''uuid+''"
    using imp n unfolding mn id by simp
  have "dict_get meta_new ''session_id'' = VStr ''abc123''"
    unfolding mn by (simp add: copied_state_def owned_state_def dict_get_def)
  then have s: "ArtifactInfo.session_id ?r = Some ''abc123''"
    using se by (cases "ArtifactInfo.session_id ?r") simp_all
  show ?thesis
    using copy_run b g n a f s by simp
qed

lemma verbatim_copy_run:
  "fst (be_copy_file VerbatimCopyStore ''uuid'' (Some ''copy.txt'') None [] owned_state)
     = Inr ''uuid+''"
  "map_sum id (\<lambda>r. (ArtifactInfo.artifact_id r, source_artifact_id r, CopyFileResult.operation r))
     (fst (copy_file VerbatimCopyStore ''uuid'' (Some ''copy.txt'') None (start owned_state)))
     = Inr (''uuid'', ''uuid'', ''copy'')"
  "calls (snd (copy_file VerbatimCopyStore ''uuid'' (Some ''copy.txt'') None (start owned_state)))
     = [Call_copy_file ''uuid'' (Some ''copy.txt'') None [], Call_metadata ''uuid+'']"
  by (simp_all add: copy_file_def STORE_copy_file_def STORE_metadata_def invoke_def
      VerbatimCopyStore_def FakeStore_def verbatim_copy_file_def fake_metadata_def fresh_id_def
      Let_def start_def owned_state_def
      info_def info_art_id_def dict_get_def dict_item_def dict_get_default_def py_or_def
      ArtifactInfo_model_validate_def int_only_def ArtifactInfo.defs CopyFileResult.defs)

text \<open>
  The claim as it was stated fails on a store whose copy keeps the record of the source:
  the store answers with the new id \<^verbatim>\<open>uuid+\<close> and the tool reads the metadata of \<^verbatim>\<open>uuid+\<close>,
  but the result has the \<^verbatim>\<open>artifact_id\<close> that this metadata names, \<^verbatim>\<open>uuid\<close>, the id of the
  source.
\<close>

theorem copy_file_same_session_counterexample:
  "fst (be_copy_file VerbatimCopyStore ''uuid'' (Some ''copy.txt'') None [] owned_state)
     = Inr ''uuid+''
   \<and> calls (snd (copy_file VerbatimCopyStore ''uuid'' (Some ''copy.txt'') None
                    (start owned_state)))
     = [Call_copy_file ''uuid'' (Some ''copy.txt'') None [], Call_metadata ''uuid+'']
   \<and> map_sum id
       (\<lambda>r. (ArtifactInfo.artifact_id r, source_artifact_id r, CopyFileResult.operation r))
       (fst (copy_file VerbatimCopyStore ''uuid'' (Some ''copy.txt'') None (start owned_state)))
     = Inr (''uuid'', ''uuid'', ''copy'')"
  using verbatim_copy_run by simp

section \<open>The session of a descriptor on the read paths\<close>

lemma session_field_with_fallback:
  assumes "opt_str_field (py_or x (VStr sess)) = Some r"
  shows "r \<noteq> None"
  using assms by (cases x) (auto simp: py_or_def split: if_splits)

lemma info_with_session_fallback:
  assumes "info intf m fb (VStr sess) = Inr i"
  shows "ArtifactInfo.session_id i \<noteq> None"
  using info_Inr_fields(2)[OF assms] by (rule session_field_with_fallback)

lemma info_each_sessions:
  assumes "info_each intf ms sess = Inr arts"
  shows "list_all (\<lambda>a. ArtifactInfo.session_id a \<noteq> None) arts"
  using assms
proof (induction ms arbitrary: arts)
  case Nil
  then show ?case by simp
next
  case (Cons m ms)
  then show ?case
    by (auto split: sum.splits dest: info_with_session_fallback)
qed

lemma info_each_fallback:
  assumes "info_each intf ms sess = Inr arts"
  shows "list_all2 (\<lambda>m a. of_opt_str (ArtifactInfo.session_id a)
                             = py_or (dict_get m ''session_id'') (VStr sess)) ms arts"
  using assms
proof (induction ms arbitrary: arts)
  case Nil
  then show ?case by simp
next
  case (Cons m ms)
  then show ?case
    by (auto split: sum.splits dest: info_session_value)
qed

lemma list_session_files_Inr:
  assumes "list_session_files env sid p w = (Inr r, w')"
  shows "\<exists>sess ms. validate_session_parameter env sid ''list_session_files'' = Inr sess
           \<and> fst (be_list_by_prefix env sess (case p of None \<Rightarrow> [] | Some x \<Rightarrow> x) 1000 (backend w))
               = Inr ms
           \<and> info_each (int_field env) ms sess = Inr (ListSessionFilesResult.artifacts r)
           \<and> ListSessionFilesResult.session_id r = sess"
  using assms
  by (auto simp: list_session_files_def resolve_session_def STORE_list_by_prefix_def invoke_def
      split: sum.splits prod.splits exn.splits)

lemma list_directory_Inr:
  assumes "list_directory env dir sid w = (Inr r, w')"
  shows "\<exists>sess ms. validate_session_parameter env sid ''list_directory'' = Inr sess
           \<and> fst (be_get_directory_contents env sess dir 1000 (backend w)) = Inr ms
           \<and> info_each (int_field env) ms sess = Inr (ListDirectoryResult.artifacts r)
           \<and> ListDirectoryResult.session_id r = sess"
  using assms
  by (auto simp: list_directory_def resolve_session_def STORE_get_directory_contents_def
      invoke_def split: sum.splits prod.splits exn.splits)

lemma get_metadata_Inr:
  assumes "get_metadata env a w = (Inr d, w')"
  shows "\<exists>mm. fst (be_metadata env a (backend w)) = Inr mm
           \<and> info (int_field env) mm (Some a) (dict_get mm ''session_id'') = Inr d"
  using assms
  by (auto simp: get_metadata_def STORE_metadata_def invoke_def split: sum.splits prod.splits)

lemma download_file_Inr:
  assumes "download_file env a presign w = (Inr r, w')"
  shows "\<exists>mm. fst (be_metadata env a (backend w)) = Inr mm
           \<and> info (int_field env) mm (Some a) (dict_get mm ''session_id'') = Inr (artifact r)"
  using assms
  by (auto simp: download_file_def STORE_metadata_def invoke_def split: sum.splits prod.splits)

lemma info_own_session:
  assumes "info intf mm fb (dict_get mm ''session_id'') = Inr d"
  shows "of_opt_str (ArtifactInfo.session_id d) = dict_get mm ''session_id''"
  using info_session_value[OF assms] by (simp add: py_or_def)


lemma fake_list_run:
  "list_session_files FakeStore (Some ''team42'') None (start new_doc_state) =
     (Inr \<lparr>ListSessionFilesResult.count = 1, ListSessionFilesResult.session_id = ''team42'',
           ListSessionFilesResult.artifacts = [new_doc_info]\<rparr>,
      \<lparr>backend = new_doc_state, calls = [Call_list_by_prefix ''team42'' [] 1000], logged = []\<rparr>)"
  by (simp add: list_session_files_def resolve_session_def STORE_list_by_prefix_def invoke_def
      FakeStore_def fake_list_by_prefix_def start_def new_doc_state_def new_doc_info_def
      info_def info_art_id_def dict_get_def dict_item_def dict_get_default_def py_or_def
      ArtifactInfo_model_validate_def int_only_def)

lemma legacy_list_run:
  "list_session_files LegacyListingStore (Some ''team42'') None (start legacy_state) =
     (Inr \<lparr>ListSessionFilesResult.count = 1, ListSessionFilesResult.session_id = ''team42'',
           ListSessionFilesResult.artifacts =
             [legacy_info\<lparr>ArtifactInfo.session_id := Some ''team42''\<rparr>]\<rparr>,
      \<lparr>backend = legacy_state, calls = [Call_list_by_prefix ''team42'' [] 1000], logged = []\<rparr>)"
  by (simp add: list_session_files_def resolve_session_def STORE_list_by_prefix_def invoke_def
      LegacyListingStore_def FakeStore_def legacy_list_def start_def legacy_state_def
      legacy_info_def
      info_def info_art_id_def dict_get_def dict_item_def dict_get_default_def py_or_def
      ArtifactInfo_model_validate_def int_only_def)

lemma legacy_directory_run:
  "list_directory LegacyListingStore ''doc'' (Some ''team42'') (start legacy_state) =
     (Inr \<lparr>ListDirectoryResult.count = 1, ListDirectoryResult.session_id = ''team42'',
           directory = ''doc'',
           ListDirectoryResult.artifacts =
             [legacy_info\<lparr>ArtifactInfo.session_id := Some ''team42''\<rparr>]\<rparr>,
      \<lparr>backend = legacy_state, calls = [Call_get_directory_contents ''team42'' ''doc'' 1000],
       logged = []\<rparr>)"
  by (simp add: list_directory_def resolve_session_def STORE_get_directory_contents_def
      invoke_def
      LegacyListingStore_def FakeStore_def legacy_list_def start_def legacy_state_def
      legacy_info_def
      info_def info_art_id_def dict_get_def dict_item_def dict_get_default_def py_or_def
      ArtifactInfo_model_validate_def int_only_def)

lemma owned_info_run:
  "get_metadata FakeStore ''uuid'' (start owned_state) =
     (Inr \<lparr>ArtifactInfo.artifact_id = ''uuid'', filename = Some ''hello.txt'',
           mime = ''text/plain'', ArtifactInfo.bytes = 11, summary = Some ''demo'',
           stored_at = ''2025-06-01T00:00:00Z'', ArtifactInfo.session_id = Some ''abc123'',
           meta = []\<rparr>,
      \<lparr>backend = owned_state, calls = [Call_metadata ''uuid''], logged = []\<rparr>)"
  by (simp add: get_metadata_def STORE_metadata_def invoke_def FakeStore_def fake_metadata_def
      start_def owned_state_def
      info_def info_art_id_def dict_get_def dict_item_def dict_get_default_def py_or_def
      ArtifactInfo_model_validate_def int_only_def)

lemma legacy_info_run:
  "get_metadata FakeStore ''legacy1'' (start legacy_state) =
     (Inr legacy_info,
      \<lparr>backend = legacy_state, calls = [Call_metadata ''legacy1''], logged = []\<rparr>)"
  by (simp add: get_metadata_def STORE_metadata_def invoke_def FakeStore_def fake_metadata_def
      start_def legacy_state_def legacy_info_def
      info_def info_art_id_def dict_get_def dict_item_def dict_get_default_def py_or_def
      ArtifactInfo_model_validate_def int_only_def)

lemma owned_download_run:
  "download_file FakeStore ''uuid'' True (start owned_state) =
     (Inr \<lparr>artifact =
             \<lparr>ArtifactInfo.artifact_id = ''uuid'', filename = Some ''hello.txt'',
              mime = ''text/plain'', ArtifactInfo.bytes = 11, summary = Some ''demo'',
              stored_at = ''2025-06-01T00:00:00Z'', ArtifactInfo.session_id = Some ''abc123'',
              meta = []\<rparr>,
           DownloadFileResult.download_url = Some ''https://example/medium/uuid'',
           data_base64 = None\<rparr>,
      \<lparr>backend = owned_state,
       calls = [Call_metadata ''uuid'', Call_presign_medium ''uuid''], logged = []\<rparr>)"
  by (simp add: download_file_def presign_or_inline_def STORE_metadata_def
      STORE_presign_medium_def invoke_def FakeStore_def fake_metadata_def
      start_def owned_state_def
      info_def info_art_id_def dict_get_def dict_item_def dict_get_default_def py_or_def
      ArtifactInfo_model_validate_def int_only_def)

lemma fake_record_sessions:
  "map_sum id (\<lambda>m. dict_get m ''session_id'') (fst (be_metadata FakeStore ''uuid'' owned_state))
     = Inr (VStr ''abc123'')"
  "map_sum id (\<lambda>m. dict_get m ''session_id'') (fst (be_metadata FakeStore ''legacy1'' legacy_state))
     = Inr VNone"
  by (simp_all add: FakeStore_def fake_metadata_def owned_state_def legacy_state_def dict_get_def)


end
